theory Spec2Isabelle
  imports Main "HOL-Library.Word"
begin

unbundle bit_operations_syntax

section \<open>Tokens, paths and values\<close>

text \<open>
  A \<open>TfToken\<close> and an \<open>SdfPath\<close> are read through their text only: tokens are compared
  and concatenated as strings, and a path is asked whether it is empty.
\<close>

type_synonym TfToken = string
type_synonym SdfPath = string

definition IsEmpty :: "SdfPath \<Rightarrow> bool" where
  "IsEmpty path = (path = [])"

text \<open>
  Modelled from the spec: \<open>HdTextureType\<close> is declared in \<open>pxr/imaging/hd/types.h\<close>, which is
  not among the sources. The data model gives the texture type as one of Uv, Field, Ptex
  or another type; the code names \<open>Uv\<close>, \<open>Field\<close> and \<open>Ptex\<close> and sends everything else
  to the \<open>default\<close> branch of its switches.
\<close>

datatype HdTextureType = Uv | Field | Ptex | OtherTextureType

text \<open>
  The two element types \<open>textureBinder.cpp\<close> names of the enum \<open>HdType\<close>, and a tuple
  type \<open>HdTupleType{type, count}\<close>. A buffer spec is built by
  \<open>specs->emplace_back(name, tupleType)\<close>.
\<close>

datatype HdType = HdTypeUInt32Vec2 | HdTypeDoubleMat4

datatype HdTupleType = HdTupleType HdType nat

datatype HdBufferSpec = HdBufferSpec TfToken HdTupleType

text \<open>
  \<open>TF_CODING_ERROR\<close>, \<open>TF_WARN\<close> and \<open>TF_VERIFY\<close> post a diagnostic and let the caller
  go on; the model appends them to a log.
\<close>

datatype diagnostic = CodingError string | Warning string SdfPath | VerifyFailed string

section \<open>The texture binder (textureBinder.cpp)\<close>

subsection \<open>Texture and sampler objects\<close>

text \<open>
  A texture handle of the new texture system unites a texture object and a sampler
  object. \<open>_CastAndCompute\<close> reaches both through \<open>dynamic_cast\<close>, which yields null on an
  object of another shape (or on a null pointer): the objects are a datatype with one
  constructor per shape, and the handle holds optional objects.
  An \<open>HgiTextureHandle\<close> may hold no texture, or one that is not an \<open>HgiGLTexture\<close>.
\<close>

datatype HgiTexture = HgiGLTexture nat | HgiOtherTexture

type_synonym HgiTextureHandle = "HgiTexture option"

datatype HdStTextureObject =
    HdStUvTextureObject HgiTextureHandle
  | HdStFieldTextureObject HgiTextureHandle
  | HdStPtexTextureObject nat nat

datatype HdStSamplerObject =
    HdStUvSamplerObject nat
  | HdStFieldSamplerObject nat
  | HdStPtexSamplerObject

record HdStTextureHandle =
  GetTextureObject :: "HdStTextureObject option"
  GetSamplerObject :: "HdStSamplerObject option"

record NamedTextureHandle =
  nth_name :: TfToken
  nth_type :: HdTextureType
  nth_handle :: HdStTextureHandle

subsection \<open>Bindless mode and buffer specs\<close>

record GlfContextCaps =
  bindlessTextureEnabled :: bool

definition UsesBindlessTextures :: "GlfContextCaps \<Rightarrow> bool" where
  "UsesBindlessTextures caps = bindlessTextureEnabled caps"

definition bindlessHandleTupleType :: HdTupleType where
  "bindlessHandleTupleType = HdTupleType HdTypeUInt32Vec2 1"

text \<open>
  \<open>GetBufferSpecs\<close> appends to \<open>specs\<close>, one texture after the other; the \<open>default\<close>
  branch posts a coding error and appends nothing.
\<close>

definition GetBufferSpecs_texture ::
  "GlfContextCaps \<Rightarrow> NamedTextureHandle \<Rightarrow> HdBufferSpec list \<times> diagnostic list
    \<Rightarrow> HdBufferSpec list \<times> diagnostic list" where
  "GetBufferSpecs_texture caps texture out =
     (case out of (specs, diags) \<Rightarrow>
       (case nth_type texture of
          Uv \<Rightarrow>
            (if UsesBindlessTextures caps
             then specs @ [HdBufferSpec (nth_name texture) bindlessHandleTupleType]
             else specs, diags)
        | Field \<Rightarrow>
            ((if UsesBindlessTextures caps
              then specs @ [HdBufferSpec (nth_name texture) bindlessHandleTupleType]
              else specs)
             @ [HdBufferSpec (nth_name texture @ ''SamplingTransform'')
                  (HdTupleType HdTypeDoubleMat4 1)], diags)
        | Ptex \<Rightarrow>
            (if UsesBindlessTextures caps
             then specs @ [HdBufferSpec (nth_name texture) bindlessHandleTupleType,
                           HdBufferSpec (nth_name texture @ ''_layout'') bindlessHandleTupleType]
             else specs, diags)
        | OtherTextureType \<Rightarrow>
            (specs, diags @ [CodingError ''Unsupported texture type''])))"

fun GetBufferSpecs ::
  "GlfContextCaps \<Rightarrow> NamedTextureHandle list \<Rightarrow> HdBufferSpec list \<times> diagnostic list
    \<Rightarrow> HdBufferSpec list \<times> diagnostic list" where
  "GetBufferSpecs caps [] out = out"
| "GetBufferSpecs caps (texture # textures) out =
     GetBufferSpecs caps textures (GetBufferSpecs_texture caps texture out)"

subsection \<open>Binding to texture units\<close>

text \<open>
  The device is seen through the OpenGL calls made on it, in order. \<open>GL_TEXTURE0\<close> is the
  constant of the OpenGL headers. \<open>glActiveTexture\<close> takes a \<open>GLenum\<close> and \<open>glBindSampler\<close>
  a \<open>GLuint\<close> unit, both unsigned 32-bit: the \<open>int\<close> the code passes is converted, so a
  negative texture unit wraps around.
\<close>

datatype GLenum = GL_TEXTURE_2D | GL_TEXTURE_3D | GL_TEXTURE_2D_ARRAY | GL_TEXTURE_BUFFER

datatype gl_call =
    glActiveTexture "32 word"
  | glBindTexture GLenum nat
  | glBindSampler "32 word" nat

definition GL_TEXTURE0 :: int where
  "GL_TEXTURE0 = 33984"

record device =
  glCalls :: "gl_call list"
  codingErrors :: "diagnostic list"

text \<open>
  The resource binder (\<open>resourceBinder.h\<close>, not among the sources) is a parameter: it
  gives the binding of a shader name, and a binding gives its texture unit.
\<close>

record HdBinding =
  GetTextureUnit :: int

record HdSt_ResourceBinder =
  GetBinding :: "TfToken \<Rightarrow> HdBinding"

definition gl :: "gl_call \<Rightarrow> device \<Rightarrow> device" where
  "gl c dev = dev\<lparr>glCalls := glCalls dev @ [c]\<rparr>"

definition TF_CODING_ERROR :: "string \<Rightarrow> device \<Rightarrow> device" where
  "TF_CODING_ERROR msg dev = dev\<lparr>codingErrors := codingErrors dev @ [CodingError msg]\<rparr>"

definition BindTexture ::
  "GLenum \<Rightarrow> HgiTextureHandle \<Rightarrow> nat \<Rightarrow> TfToken \<Rightarrow> HdSt_ResourceBinder \<Rightarrow> bool
    \<Rightarrow> device \<Rightarrow> device" where
  "BindTexture target textureHandle glSamplerName name resourceBinder bind dev =
     (let binding = GetBinding resourceBinder name;
          samplerUnit = GetTextureUnit binding;
          dev1 = gl (glActiveTexture (word_of_int (GL_TEXTURE0 + samplerUnit))) dev;
          glTex = (if bind then (case textureHandle of
                                   Some (HgiGLTexture textureId) \<Rightarrow> Some textureId
                                 | _ \<Rightarrow> None)
                   else None);
          dev2 = (case glTex of
                    Some textureId \<Rightarrow> gl (glBindTexture target textureId) dev1
                  | None \<Rightarrow> gl (glBindTexture target 0) dev1)
      in gl (glBindSampler (word_of_int samplerUnit) (if bind then glSamplerName else 0)) dev2)"

text \<open>
  \<open>_CastAndCompute<textureType, _BindFunctor>\<close>: the two casts, then the overload of
  \<open>_BindFunctor::Compute\<close> for that shape.
\<close>

definition BindFunctor_Uv ::
  "NamedTextureHandle \<Rightarrow> HdSt_ResourceBinder \<Rightarrow> bool \<Rightarrow> device \<Rightarrow> device" where
  "BindFunctor_Uv t resourceBinder bind dev =
     (case GetTextureObject (nth_handle t) of
        Some (HdStUvTextureObject texture) \<Rightarrow>
          (case GetSamplerObject (nth_handle t) of
             Some (HdStUvSamplerObject glSamplerName) \<Rightarrow>
               BindTexture GL_TEXTURE_2D texture glSamplerName (nth_name t) resourceBinder bind dev
           | _ \<Rightarrow> TF_CODING_ERROR ''Bad sampler object'' dev)
      | _ \<Rightarrow> TF_CODING_ERROR ''Bad texture object'' dev)"

definition BindFunctor_Field ::
  "NamedTextureHandle \<Rightarrow> HdSt_ResourceBinder \<Rightarrow> bool \<Rightarrow> device \<Rightarrow> device" where
  "BindFunctor_Field t resourceBinder bind dev =
     (case GetTextureObject (nth_handle t) of
        Some (HdStFieldTextureObject texture) \<Rightarrow>
          (case GetSamplerObject (nth_handle t) of
             Some (HdStFieldSamplerObject glSamplerName) \<Rightarrow>
               BindTexture GL_TEXTURE_3D texture glSamplerName (nth_name t) resourceBinder bind dev
           | _ \<Rightarrow> TF_CODING_ERROR ''Bad sampler object'' dev)
      | _ \<Rightarrow> TF_CODING_ERROR ''Bad texture object'' dev)"

definition BindFunctor_Ptex ::
  "NamedTextureHandle \<Rightarrow> HdSt_ResourceBinder \<Rightarrow> bool \<Rightarrow> device \<Rightarrow> device" where
  "BindFunctor_Ptex t resourceBinder bind dev =
     (case GetTextureObject (nth_handle t) of
        Some (HdStPtexTextureObject texelGLTextureName layoutGLTextureName) \<Rightarrow>
          (case GetSamplerObject (nth_handle t) of
             Some HdStPtexSamplerObject \<Rightarrow>
               (let texelBinding = GetBinding resourceBinder (nth_name t);
                    texelSamplerUnit = GetTextureUnit texelBinding;
                    dev1 = gl (glActiveTexture (word_of_int (GL_TEXTURE0 + texelSamplerUnit))) dev;
                    dev2 = gl (glBindTexture GL_TEXTURE_2D_ARRAY
                                 (if bind then texelGLTextureName else 0)) dev1;
                    layoutBinding = GetBinding resourceBinder (nth_name t @ ''_layout'');
                    layoutSamplerUnit = GetTextureUnit layoutBinding;
                    dev3 = gl (glActiveTexture (word_of_int (GL_TEXTURE0 + layoutSamplerUnit))) dev2
                in gl (glBindTexture GL_TEXTURE_BUFFER
                         (if bind then layoutGLTextureName else 0)) dev3)
           | _ \<Rightarrow> TF_CODING_ERROR ''Bad sampler object'' dev)
      | _ \<Rightarrow> TF_CODING_ERROR ''Bad texture object'' dev)"

definition Dispatch_BindFunctor ::
  "NamedTextureHandle \<Rightarrow> HdSt_ResourceBinder \<Rightarrow> bool \<Rightarrow> device \<Rightarrow> device" where
  "Dispatch_BindFunctor t resourceBinder bind dev =
     (case nth_type t of
        Uv \<Rightarrow> BindFunctor_Uv t resourceBinder bind dev
      | Field \<Rightarrow> BindFunctor_Field t resourceBinder bind dev
      | Ptex \<Rightarrow> BindFunctor_Ptex t resourceBinder bind dev
      | OtherTextureType \<Rightarrow> TF_CODING_ERROR ''Unsupported texture type'' dev)"

fun Dispatch_BindFunctor_all ::
  "NamedTextureHandle list \<Rightarrow> HdSt_ResourceBinder \<Rightarrow> bool \<Rightarrow> device \<Rightarrow> device" where
  "Dispatch_BindFunctor_all [] resourceBinder bind dev = dev"
| "Dispatch_BindFunctor_all (texture # textures) resourceBinder bind dev =
     Dispatch_BindFunctor_all textures resourceBinder bind
       (Dispatch_BindFunctor texture resourceBinder bind dev)"

definition BindResources ::
  "GlfContextCaps \<Rightarrow> HdSt_ResourceBinder \<Rightarrow> NamedTextureHandle list \<Rightarrow> device \<Rightarrow> device" where
  "BindResources caps resourceBinder textures dev =
     (if UsesBindlessTextures caps then dev
      else Dispatch_BindFunctor_all textures resourceBinder True dev)"

definition UnbindResources ::
  "GlfContextCaps \<Rightarrow> HdSt_ResourceBinder \<Rightarrow> NamedTextureHandle list \<Rightarrow> device \<Rightarrow> device" where
  "UnbindResources caps resourceBinder textures dev =
     (if UsesBindlessTextures caps then dev
      else Dispatch_BindFunctor_all textures resourceBinder False dev)"

section \<open>Materials (material.cpp)\<close>

subsection \<open>Material parameters and texture resources\<close>

text \<open>
  The enums of \<open>pxr/imaging/hd/enums.h\<close> are not among the sources; \<open>material.cpp\<close> names
  \<open>HdWrapClamp\<close>, \<open>HdMinFilterNearest\<close> and \<open>HdMagFilterNearest\<close>, and each enum has
  other members that a parameter's sampler may ask for.
\<close>

datatype HdWrap = HdWrapClamp | HdWrapRepeat | HdWrapBlack | HdWrapMirror

datatype HdMinFilter = HdMinFilterNearest | HdMinFilterLinear

datatype HdMagFilter = HdMagFilterNearest | HdMagFilterLinear

record HdSamplerParameters =
  wrapS :: HdWrap
  wrapT :: HdWrap
  wrapR :: HdWrap
  minFilter :: HdMinFilter
  magFilter :: HdMagFilter

text \<open>
  A material network as the scene delegate hands it over: \<open>Sync\<close> asks only whether
  \<open>terminals\<close> and \<open>map\<close> are empty, and passes the value on to the network processor.
\<close>

datatype HdMaterialNetwork = HdMaterialNetwork "SdfPath list"

record HdMaterialNetworkMap =
  nm_map :: "(TfToken \<times> HdMaterialNetwork) list"
  nm_terminals :: "SdfPath list"

text \<open>
  A \<open>VtValue\<close> holds a value of any type; \<open>Sync\<close> asks whether it holds a network map,
  \<open>_GetHasLimitSurfaceEvaluation\<close> whether it holds a \<open>bool\<close>.
\<close>

datatype VtValue =
    VtEmpty
  | VtBool bool
  | VtInt int
  | VtString string
  | VtNetworkMap HdMaterialNetworkMap

type_synonym VtDictionary = "(string \<times> VtValue) list"

definition TfMapLookupByValue :: "VtDictionary \<Rightarrow> string \<Rightarrow> VtValue \<Rightarrow> VtValue" where
  "TfMapLookupByValue dict key defaultValue =
     (case map_of dict key of Some v \<Rightarrow> v | None \<Rightarrow> defaultValue)"

text \<open>
  Modelled from the spec: \<open>HdSt_MaterialParam\<close> is declared in \<open>materialParam.h\<close>, which is
  not among the sources. The data model: a kind (Fallback, PrimvarRedirect or Texture), a
  fallback value, a texture type, an optional connection path (the empty path when
  absent), sampler parameters and a memory budget hint.
\<close>

datatype ParamType = ParamTypeFallback | ParamTypePrimvarRedirect | ParamTypeTexture

record HdSt_MaterialParam =
  paramType :: ParamType
  param_name :: TfToken
  fallbackValue :: VtValue
  connection :: SdfPath
  textureType :: HdTextureType
  samplerParameters :: HdSamplerParameters
  memoryRequest :: nat

definition IsFallback :: "HdSt_MaterialParam \<Rightarrow> bool" where
  "IsFallback param = (paramType param = ParamTypeFallback)"

definition IsPrimvarRedirect :: "HdSt_MaterialParam \<Rightarrow> bool" where
  "IsPrimvarRedirect param = (paramType param = ParamTypePrimvarRedirect)"

definition IsTexture :: "HdSt_MaterialParam \<Rightarrow> bool" where
  "IsTexture param = (paramType param = ParamTypeTexture)"

text \<open>
  Texture resources of the old texture system. \<open>_GetTextureResourceHandle\<close> builds an
  \<open>HdStSimpleTextureResource\<close> around a 1x1 \<open>GlfUVTextureStorage\<close>; every other resource
  comes from the resource registry or the scene delegate and is known by an identity
  only.
\<close>

datatype GlfUVTextureStorage = GlfUVTextureStorage nat nat VtValue

datatype GlfTextureHandle = GlfTextureHandle GlfUVTextureStorage

datatype HdStTextureResource =
    HdStSimpleTextureResource GlfTextureHandle HdTextureType
      HdWrap HdWrap HdWrap HdMinFilter HdMagFilter nat
  | SceneTextureResource nat

text \<open>
  The sampler state a resource was constructed with, as the accessors of
  \<open>HdStSimpleTextureResource\<close> read it back (\<open>textureResource.h\<close> is not among the
  sources); a resource made elsewhere has no sampler state known here.
\<close>

fun GetWrapS :: "HdStTextureResource \<Rightarrow> HdWrap option" where
  "GetWrapS (HdStSimpleTextureResource t ty ws wt wr mn mg mem) = Some ws"
| "GetWrapS (SceneTextureResource n) = None"

fun GetWrapT :: "HdStTextureResource \<Rightarrow> HdWrap option" where
  "GetWrapT (HdStSimpleTextureResource t ty ws wt wr mn mg mem) = Some wt"
| "GetWrapT (SceneTextureResource n) = None"

fun GetWrapR :: "HdStTextureResource \<Rightarrow> HdWrap option" where
  "GetWrapR (HdStSimpleTextureResource t ty ws wt wr mn mg mem) = Some wr"
| "GetWrapR (SceneTextureResource n) = None"

fun GetMinFilter :: "HdStTextureResource \<Rightarrow> HdMinFilter option" where
  "GetMinFilter (HdStSimpleTextureResource t ty ws wt wr mn mg mem) = Some mn"
| "GetMinFilter (SceneTextureResource n) = None"

fun GetMagFilter :: "HdStTextureResource \<Rightarrow> HdMagFilter option" where
  "GetMagFilter (HdStSimpleTextureResource t ty ws wt wr mn mg mem) = Some mg"
| "GetMagFilter (SceneTextureResource n) = None"

subsection \<open>Shared state\<close>

text \<open>
  An \<open>HdStTextureResourceHandle\<close> is a shared mutable object holding a texture resource
  (or null): the handles live in a store, a handle pointer is an address into it, and
  \<open>new\<close> allocates the next address. Shared pointers do not dangle, so the addresses
  the registry gives lie inside the store; an address outside it is read as a handle
  without a resource. \<open>HioGlslfx\<close> is the parsed fallback shader file. The change tracker
  is seen through the calls made on it.
\<close>

type_synonym HdStTextureResourceHandlePtr = nat

type_synonym HdDirtyBits = "32 word"

datatype tracker_call = MarkBatchesDirty | MarkAllRprimsDirty HdDirtyBits

record HioGlslfx =
  GetSurfaceSource :: string
  GetMetadata :: VtDictionary
  IsValid :: bool

record world =
  fallbackGlslfx :: "HioGlslfx option"
  handleStore :: "HdStTextureResource option list"
  changeTracker :: "tracker_call list"
  diagnostics :: "diagnostic list"

definition GetTextureResourceOf ::
  "world \<Rightarrow> HdStTextureResourceHandlePtr \<Rightarrow> HdStTextureResource option" where
  "GetTextureResourceOf w h = (if h < length (handleStore w) then handleStore w ! h else None)"

definition SetTextureResource ::
  "HdStTextureResourceHandlePtr \<Rightarrow> HdStTextureResource option \<Rightarrow> world \<Rightarrow> world" where
  "SetTextureResource h texResource w = w\<lparr>handleStore := (handleStore w)[h := texResource]\<rparr>"

definition TF_WARN :: "string \<Rightarrow> SdfPath \<Rightarrow> world \<Rightarrow> world" where
  "TF_WARN msg path w = w\<lparr>diagnostics := diagnostics w @ [Warning msg path]\<rparr>"

subsection \<open>The network processor and the surface shader\<close>

text \<open>
  \<open>HdStMaterialNetwork\<close> (\<open>materialNetwork.h\<close>, not among the sources) is seen through
  what its getters return after \<open>ProcessMaterialNetwork\<close>; the processing itself is a
  parameter of the model (see \<open>environment\<close>).
\<close>

type_synonym HdStTextureIdentifier = string

record TextureDescriptor =
  desc_name :: TfToken
  desc_textureId :: HdStTextureIdentifier
  desc_type :: HdTextureType
  desc_samplerParameters :: HdSamplerParameters
  desc_memoryRequest :: nat

record HdStMaterialNetwork =
  GetFragmentCode :: string
  GetGeometryCode :: string
  GetNetworkMetadata :: VtDictionary
  GetMaterialTag :: TfToken
  GetMaterialParams :: "HdSt_MaterialParam list"
  GetTextureDescriptors :: "TextureDescriptor list"

text \<open>
  Buffer sources and the texture descriptors of the old texture system are made only by
  helpers outside the sources; \<open>Sync\<close> collects them and hands them to the shader.
\<close>

typedecl HdBufferSource

typedecl TextureResourceDescriptor

text \<open>
  Modelled from the spec: \<open>HdStSurfaceShader\<close> (\<open>surfaceShader.cpp\<close> is not among the
  sources) is the shader state of the data model: the current fragment and geometry
  source strings, the material tag, the parameter list, the buffer specs and sources
  and the texture descriptor list. Each setter stores its argument, and \<open>GetSource\<close>
  reads the stored source of the stage asked for.
\<close>

record HdStSurfaceShader =
  fragmentSource :: string
  geometrySource :: string
  shaderMaterialTag :: TfToken
  enabledPrimvarFiltering :: bool
  shaderParams :: "HdSt_MaterialParam list"
  textureDescriptors :: "TextureResourceDescriptor list"
  namedTextureHandles :: "NamedTextureHandle list"
  bufferSpecs :: "HdBufferSpec list"
  bufferSources :: "HdBufferSource list"

definition fragmentShader :: TfToken where
  "fragmentShader = ''fragmentShader''"

definition geometryShader :: TfToken where
  "geometryShader = ''geometryShader''"

definition SetFragmentSource :: "string \<Rightarrow> HdStSurfaceShader \<Rightarrow> HdStSurfaceShader" where
  "SetFragmentSource source shader = shader\<lparr>fragmentSource := source\<rparr>"

definition SetGeometrySource :: "string \<Rightarrow> HdStSurfaceShader \<Rightarrow> HdStSurfaceShader" where
  "SetGeometrySource source shader = shader\<lparr>geometrySource := source\<rparr>"

definition GetSource :: "HdStSurfaceShader \<Rightarrow> TfToken \<Rightarrow> string" where
  "GetSource shader shaderStageKey =
     (if shaderStageKey = fragmentShader then fragmentSource shader
      else if shaderStageKey = geometryShader then geometrySource shader
      else [])"

definition SetMaterialTag :: "TfToken \<Rightarrow> HdStSurfaceShader \<Rightarrow> HdStSurfaceShader" where
  "SetMaterialTag tag shader = shader\<lparr>shaderMaterialTag := tag\<rparr>"

definition SetEnabledPrimvarFiltering :: "bool \<Rightarrow> HdStSurfaceShader \<Rightarrow> HdStSurfaceShader" where
  "SetEnabledPrimvarFiltering enabled shader = shader\<lparr>enabledPrimvarFiltering := enabled\<rparr>"

definition SetParams :: "HdSt_MaterialParam list \<Rightarrow> HdStSurfaceShader \<Rightarrow> HdStSurfaceShader" where
  "SetParams params shader = shader\<lparr>shaderParams := params\<rparr>"

definition SetTextureDescriptors ::
  "TextureResourceDescriptor list \<Rightarrow> HdStSurfaceShader \<Rightarrow> HdStSurfaceShader" where
  "SetTextureDescriptors descs shader = shader\<lparr>textureDescriptors := descs\<rparr>"

definition SetNamedTextureHandles ::
  "NamedTextureHandle list \<Rightarrow> HdStSurfaceShader \<Rightarrow> HdStSurfaceShader" where
  "SetNamedTextureHandles textures shader = shader\<lparr>namedTextureHandles := textures\<rparr>"

definition SetBufferSources ::
  "HdBufferSpec list \<Rightarrow> HdBufferSource list \<Rightarrow> HdStSurfaceShader \<Rightarrow> HdStSurfaceShader" where
  "SetBufferSources specs sources shader =
     shader\<lparr>bufferSpecs := specs, bufferSources := sources\<rparr>"

subsection \<open>The material and what surrounds it\<close>

record HdStMaterial =
  materialId :: SdfPath
  surfaceShader :: HdStSurfaceShader
  isInitialized :: bool
  hasPtex :: bool
  hasLimitSurfaceEvaluation :: bool
  hasDisplacement :: bool
  materialTag :: TfToken
  networkProcessor :: HdStMaterialNetwork
  internalTextureResourceHandles :: "HdStTextureResourceHandlePtr list"

text \<open>
  The constructor (lines 65 to 76). The new surface shader and the default-constructed
  network processor are arguments: their constructors are not among the sources.
\<close>

definition defaultMaterialTag :: TfToken where
  "defaultMaterialTag = ''defaultMaterialTag''"

definition HdStMaterial_new ::
  "SdfPath \<Rightarrow> HdStSurfaceShader \<Rightarrow> HdStMaterialNetwork \<Rightarrow> HdStMaterial" where
  "HdStMaterial_new path newSurfaceShader newNetworkProcessor =
     \<lparr>materialId = path,
      surfaceShader = newSurfaceShader,
      isInitialized = False,
      hasPtex = False,
      hasLimitSurfaceEvaluation = False,
      hasDisplacement = False,
      materialTag = defaultMaterialTag,
      networkProcessor = newNetworkProcessor,
      internalTextureResourceHandles = []\<rparr>"

text \<open>
  Everything \<open>material.cpp\<close> reaches outside itself, taken as parameters: the scene
  delegate with its render index and resource registry, the environment setting, the
  context capabilities, the dirty bits of \<open>HdMaterial\<close> and \<open>HdChangeTracker\<close>, and the
  helpers of this repository whose code is not among the sources.
  \<open>FindTextureResource\<close> gives \<open>None\<close> when nothing is found, and else the instance's
  value, a pointer that may be null.
\<close>

type_synonym TextureKey = nat

type_synonym TextureResourceID = "64 word"

record environment =
  GetMaterialResource :: "SdfPath \<Rightarrow> VtValue"
  GetTextureResourceID :: "SdfPath \<Rightarrow> TextureResourceID"
  GetTextureResource :: "SdfPath \<Rightarrow> HdStTextureResource option"
  GetTextureKey :: "TextureResourceID \<Rightarrow> TextureKey"
  GetHandleKey :: "SdfPath \<Rightarrow> TextureKey"
  FindTextureResource :: "TextureKey \<Rightarrow> HdStTextureResource option option"
  FindTextureResourceHandle :: "TextureKey \<Rightarrow> HdStTextureResourceHandlePtr option"
  AllocateTextureHandle ::
    "HdStTextureIdentifier \<Rightarrow> HdTextureType \<Rightarrow> HdSamplerParameters \<Rightarrow> nat \<Rightarrow> bool
      \<Rightarrow> HdStTextureHandle"
  HDST_USE_NEW_TEXTURE_SYSTEM :: bool
  contextCaps :: GlfContextCaps
  Clean :: HdDirtyBits
  DirtyResource :: HdDirtyBits
  DirtyParams :: HdDirtyBits
  DirtyMaterialId :: HdDirtyBits
  HdStPackageFallbackSurfaceShader :: TfToken
  HioGlslfx_new :: "TfToken \<Rightarrow> HioGlslfx"
  ProcessMaterialNetwork ::
    "SdfPath \<Rightarrow> HdMaterialNetworkMap \<Rightarrow> HdStMaterialNetwork \<Rightarrow> HdStMaterialNetwork"
  AddFallbackValueToSpecsAndSources ::
    "HdSt_MaterialParam \<Rightarrow> HdBufferSpec list \<times> HdBufferSource list
      \<Rightarrow> HdBufferSpec list \<times> HdBufferSource list"
  ProcessTextureMaterialParam ::
    "HdSt_MaterialParam \<Rightarrow> HdStTextureResourceHandlePtr option
      \<Rightarrow> HdStTextureResource option list
      \<Rightarrow> HdBufferSpec list \<times> HdBufferSource list \<times> TextureResourceDescriptor list
      \<Rightarrow> HdBufferSpec list \<times> HdBufferSource list \<times> TextureResourceDescriptor list"

definition IsSupportedByNewTextureSystem :: "HdTextureType \<Rightarrow> bool" where
  "IsSupportedByNewTextureSystem type =
     (case type of Uv \<Rightarrow> True | Field \<Rightarrow> True | Ptex \<Rightarrow> True | _ \<Rightarrow> False)"

text \<open>
  \<open>_GetNamedTextureHandles\<close>. The weak pointer to the shader code that
  \<open>AllocateTextureHandle\<close> also receives is a back-reference with no part in the result.
\<close>

fun GetNamedTextureHandles ::
  "environment \<Rightarrow> TextureDescriptor list \<Rightarrow> NamedTextureHandle list" where
  "GetNamedTextureHandles env [] = []"
| "GetNamedTextureHandles env (desc # descs) =
     (if IsSupportedByNewTextureSystem (desc_type desc)
      then \<lparr>nth_name = desc_name desc, nth_type = desc_type desc,
            nth_handle = AllocateTextureHandle env (desc_textureId desc) (desc_type desc)
              (desc_samplerParameters desc) (desc_memoryRequest desc)
              (UsesBindlessTextures (contextCaps env))\<rparr>
           # GetNamedTextureHandles env descs
      else GetNamedTextureHandles env descs)"

subsection \<open>Resolving a texture parameter: \<open>_GetTextureResourceHandle\<close>\<close>

text \<open>
  Lines 339 to 399: the search for a texture resource and a registered handle. The
  result is \<open>texResource\<close> and \<open>handle\<close> as they stand at line 401, and the world (a
  warning may have been posted, and a registered handle has been given the registry's
  resource, null included).
\<close>

definition LocateTextureResource ::
  "environment \<Rightarrow> HdSt_MaterialParam \<Rightarrow> world
    \<Rightarrow> HdStTextureResource option \<times> HdStTextureResourceHandlePtr option \<times> world" where
  "LocateTextureResource env param w =
     (if \<not> IsEmpty (connection param) then
        (let texID = GetTextureResourceID env (connection param);
             found =
               (if texID \<noteq> - 1 then
                  (let texKey = GetTextureKey env texID in
                   case FindTextureResource env texKey of
                     None \<Rightarrow>
                       (None, TF_WARN ''No texture resource found with path'' (connection param) w)
                   | Some texInstanceValue \<Rightarrow> (texInstanceValue, w))
                else (None, w));
             texResource = fst found;
             w1 = snd found;
             handleKey = GetHandleKey env (connection param);
             registered =
               (case FindTextureResourceHandle env handleKey of
                  Some h \<Rightarrow> (Some h, SetTextureResource h texResource w1)
                | None \<Rightarrow> (None, w1));
             handle = fst registered;
             w2 = snd registered;
             texResource' =
               (case texResource of
                  None \<Rightarrow> GetTextureResource env (connection param)
                | Some r \<Rightarrow> Some r)
         in (texResource', handle, w2))
      else (None, None, w))"

text \<open>
  Lines 440 to 443: a new handle around \<open>texResource\<close>, kept in the material's own list.
\<close>

definition StoreInternalHandle ::
  "HdStTextureResource option \<Rightarrow> HdStTextureResourceHandlePtr option \<Rightarrow> HdStMaterial \<times> world
    \<Rightarrow> HdStTextureResourceHandlePtr option \<times> HdStMaterial \<times> world" where
  "StoreInternalHandle texResource handle s =
     (case s of (m, w) \<Rightarrow>
       (case texResource of
          Some r \<Rightarrow>
            (let h = length (handleStore w)
             in (Some h,
                 m\<lparr>internalTextureResourceHandles := internalTextureResourceHandles m @ [h]\<rparr>,
                 w\<lparr>handleStore := handleStore w @ [Some r]\<rparr>))
        | None \<Rightarrow> (handle, m, w)))"

definition FallbackTextureResource :: "HdSt_MaterialParam \<Rightarrow> HdStTextureResource" where
  "FallbackTextureResource param =
     (let texPtr = GlfUVTextureStorage 1 1 (fallbackValue param);
          texture = GlfTextureHandle texPtr
      in HdStSimpleTextureResource texture Uv
           HdWrapClamp HdWrapClamp HdWrapClamp HdMinFilterNearest HdMagFilterNearest 0)"

definition GetTextureResourceHandle ::
  "environment \<Rightarrow> HdSt_MaterialParam \<Rightarrow> HdStMaterial \<times> world
    \<Rightarrow> HdStTextureResourceHandlePtr option \<times> HdStMaterial \<times> world" where
  "GetTextureResourceHandle env param s =
     (case s of (m, w) \<Rightarrow>
       (case LocateTextureResource env param w of (texResource, handle, w1) \<Rightarrow>
         (if \<not> (case handle of
                   Some h \<Rightarrow> GetTextureResourceOf w1 h \<noteq> None
                 | None \<Rightarrow> False)
          then
            (case texResource of
               None \<Rightarrow>
                 (let w2 = (if \<not> IsEmpty (connection param)
                            then TF_WARN ''Texture not found. Using fallback texture for''
                                   (connection param) w1
                            else w1)
                  in if textureType param \<noteq> Uv then (None, m, w2)
                     else StoreInternalHandle (Some (FallbackTextureResource param)) handle (m, w2))
             | Some r \<Rightarrow> StoreInternalHandle (Some r) handle (m, w1))
          else (handle, m, w1))))"

subsection \<open>\<open>Sync\<close>\<close>

definition GetHasLimitSurfaceEvaluation :: "VtDictionary \<Rightarrow> bool" where
  "GetHasLimitSurfaceEvaluation metadata =
     (case TfMapLookupByValue metadata ''limitSurfaceEvaluation'' VtEmpty of
        VtBool b \<Rightarrow> b
      | _ \<Rightarrow> False)"

text \<open>
  \<open>_InitFallbackShader\<close> loads the fallback shader file once into the static
  \<open>_fallbackGlslfx\<close>. It is given here with the object the static points to afterwards,
  which \<open>Sync\<close> dereferences next.
\<close>

definition InitFallbackShader :: "environment \<Rightarrow> world \<Rightarrow> HioGlslfx \<times> world" where
  "InitFallbackShader env w =
     (case fallbackGlslfx w of
        Some glslfx \<Rightarrow> (glslfx, w)
      | None \<Rightarrow>
          (let filePath = HdStPackageFallbackSurfaceShader env;
               glslfx = HioGlslfx_new env filePath;
               w1 = w\<lparr>fallbackGlslfx := Some glslfx\<rparr>
           in (glslfx,
               if IsValid glslfx then w1
               else w1\<lparr>diagnostics := diagnostics w1
                         @ [VerifyFailed ''Failed to load fallback surface shader!'']\<rparr>)))"

text \<open>The local variables of \<open>Sync\<close> declared at lines 161 to 168.\<close>

record SyncLocals =
  needsRprimMaterialStateUpdate :: bool
  l_fragmentSource :: string
  l_geometrySource :: string
  l_materialMetadata :: VtDictionary
  l_materialTag :: TfToken
  l_params :: "HdSt_MaterialParam list"
  l_textureDescriptors :: "TextureDescriptor list"

text \<open>Lines 161 to 185: the locals, filled from the processed network when there is one.\<close>

definition Sync_network ::
  "environment \<Rightarrow> bool \<Rightarrow> HdStMaterial \<Rightarrow> SyncLocals \<times> HdStMaterial" where
  "Sync_network env useNewTextureSystem m =
     (let l = \<lparr>needsRprimMaterialStateUpdate = False, l_fragmentSource = [],
               l_geometrySource = [], l_materialMetadata = [],
               l_materialTag = materialTag m, l_params = [], l_textureDescriptors = []\<rparr>
      in case GetMaterialResource env (materialId m) of
           VtNetworkMap hdNetworkMap \<Rightarrow>
             (if nm_terminals hdNetworkMap \<noteq> [] \<and> nm_map hdNetworkMap \<noteq> [] then
                (let np = ProcessMaterialNetwork env (materialId m) hdNetworkMap
                            (networkProcessor m)
                 in (l\<lparr>l_fragmentSource := GetFragmentCode np,
                        l_geometrySource := GetGeometryCode np,
                        l_materialMetadata := GetNetworkMetadata np,
                        l_materialTag := GetMaterialTag np,
                        l_params := GetMaterialParams np,
                        l_textureDescriptors :=
                          (if useNewTextureSystem then GetTextureDescriptors np else [])\<rparr>,
                     m\<lparr>networkProcessor := np\<rparr>))
              else (l, m))
         | _ \<Rightarrow> (l, m))"

text \<open>Lines 187 to 194: the fallback shader when the network gave no source.\<close>

definition Sync_fallback :: "environment \<Rightarrow> SyncLocals \<Rightarrow> world \<Rightarrow> SyncLocals \<times> world" where
  "Sync_fallback env l w =
     (if l_fragmentSource l = [] \<and> l_geometrySource l = [] then
        (case InitFallbackShader env w of (glslfx, w1) \<Rightarrow>
          (l\<lparr>l_fragmentSource := GetSurfaceSource glslfx,
              l_geometrySource := [],
              l_materialMetadata := GetMetadata glslfx\<rparr>, w1))
      else (l, w))"

text \<open>Lines 196 to 220: the sources, the displacement and limit-surface flags, the tag.\<close>

definition Sync_shader :: "SyncLocals \<Rightarrow> HdStMaterial \<Rightarrow> SyncLocals \<times> HdStMaterial" where
  "Sync_shader l m =
     (let m1 = m\<lparr>surfaceShader :=
                  SetGeometrySource (l_geometrySource l)
                    (SetFragmentSource (l_fragmentSource l) (surfaceShader m))\<rparr>;
          hasDisplacement' = (\<not> (l_geometrySource l = []));
          m2 = (if hasDisplacement m1 \<noteq> hasDisplacement'
                then m1\<lparr>hasDisplacement := hasDisplacement'\<rparr> else m1);
          l2 = (if hasDisplacement m1 \<noteq> hasDisplacement'
                then l\<lparr>needsRprimMaterialStateUpdate := True\<rparr> else l);
          hasLimitSurfaceEvaluation' = GetHasLimitSurfaceEvaluation (l_materialMetadata l2);
          m3 = (if hasLimitSurfaceEvaluation m2 \<noteq> hasLimitSurfaceEvaluation'
                then m2\<lparr>hasLimitSurfaceEvaluation := hasLimitSurfaceEvaluation'\<rparr> else m2);
          l3 = (if hasLimitSurfaceEvaluation m2 \<noteq> hasLimitSurfaceEvaluation'
                then l2\<lparr>needsRprimMaterialStateUpdate := True\<rparr> else l2);
          m4 = (if materialTag m3 \<noteq> l_materialTag l3
                then m3\<lparr>materialTag := l_materialTag l3,
                        surfaceShader := SetMaterialTag (l_materialTag l3) (surfaceShader m3)\<rparr>
                else m3);
          l4 = (if materialTag m3 \<noteq> l_materialTag l3
                then l3\<lparr>needsRprimMaterialStateUpdate := True\<rparr> else l3);
          m5 = m4\<lparr>surfaceShader := SetEnabledPrimvarFiltering True (surfaceShader m4)\<rparr>
      in (l4, m5))"

text \<open>Lines 226 to 249: whether the draw batches are marked dirty.\<close>

definition Sync_batches :: "SyncLocals \<Rightarrow> HdStMaterial \<Rightarrow> world \<Rightarrow> world" where
  "Sync_batches l m w =
     (if isInitialized m then
        (let markBatchesDirty = (materialTag m \<noteq> l_materialTag l);
             markBatchesDirty' =
               (if \<not> markBatchesDirty then
                  (let oldFragmentSource = GetSource (surfaceShader m) fragmentShader;
                       oldGeometrySource = GetSource (surfaceShader m) geometryShader
                   in markBatchesDirty \<or>
                      (oldFragmentSource \<noteq> l_fragmentSource l \<or>
                       oldGeometrySource \<noteq> l_geometrySource l))
                else markBatchesDirty)
         in if markBatchesDirty'
            then w\<lparr>changeTracker := changeTracker w @ [MarkBatchesDirty]\<rparr>
            else w)
      else w)"

text \<open>Lines 259 to 289: the loop over the parameters, one parameter at a time.\<close>

record ParamLocals =
  l_specs :: "HdBufferSpec list"
  l_sources :: "HdBufferSource list"
  l_textureResourceDescriptors :: "TextureResourceDescriptor list"
  l_hasPtex :: bool

definition Sync_param ::
  "environment \<Rightarrow> bool \<Rightarrow> HdSt_MaterialParam \<Rightarrow> ParamLocals \<times> HdStMaterial \<times> world
    \<Rightarrow> ParamLocals \<times> HdStMaterial \<times> world" where
  "Sync_param env useNewTextureSystem param s =
     (case s of (p, m, w) \<Rightarrow>
       (if IsPrimvarRedirect param \<or> IsFallback param then
          (case AddFallbackValueToSpecsAndSources env param (l_specs p, l_sources p) of
             (specs', sources') \<Rightarrow> (p\<lparr>l_specs := specs', l_sources := sources'\<rparr>, m, w))
        else if IsTexture param then
          (let p1 = (if textureType param = Ptex then p\<lparr>l_hasPtex := True\<rparr> else p)
           in if \<not> (useNewTextureSystem \<and> IsSupportedByNewTextureSystem (textureType param))
              then
                (case GetTextureResourceHandle env param (m, w) of (handle, m', w') \<Rightarrow>
                  (case ProcessTextureMaterialParam env param handle (handleStore w')
                          (l_specs p1, l_sources p1, l_textureResourceDescriptors p1) of
                     (specs', sources', descs') \<Rightarrow>
                       (p1\<lparr>l_specs := specs', l_sources := sources',
                            l_textureResourceDescriptors := descs'\<rparr>, m', w')))
              else (p1, m, w))
        else (p, m, w)))"

fun Sync_params ::
  "environment \<Rightarrow> bool \<Rightarrow> HdSt_MaterialParam list \<Rightarrow> ParamLocals \<times> HdStMaterial \<times> world
    \<Rightarrow> ParamLocals \<times> HdStMaterial \<times> world" where
  "Sync_params env useNewTextureSystem [] s = s"
| "Sync_params env useNewTextureSystem (param # params) s =
     Sync_params env useNewTextureSystem params (Sync_param env useNewTextureSystem param s)"

text \<open>
  Lines 254 to 327: the parameters, the textures of the new texture system, the buffer
  sources, the ptex flag and the invalidation of the rprims.
\<close>

definition Sync_resources ::
  "environment \<Rightarrow> bool \<Rightarrow> SyncLocals \<Rightarrow> HdStMaterial \<times> world \<Rightarrow> HdStMaterial \<times> world" where
  "Sync_resources env useNewTextureSystem l s =
     (case s of (m, w) \<Rightarrow>
       (let m1 = m\<lparr>surfaceShader := SetParams (l_params l) (surfaceShader m),
                    internalTextureResourceHandles := []\<rparr>;
            p0 = \<lparr>l_specs = [], l_sources = [], l_textureResourceDescriptors = [],
                  l_hasPtex = False\<rparr>
        in case Sync_params env useNewTextureSystem (l_params l) (p0, m1, w) of
             (p, m2, w2) \<Rightarrow>
               (let m3 = m2\<lparr>surfaceShader :=
                              SetTextureDescriptors (l_textureResourceDescriptors p)
                                (surfaceShader m2)\<rparr>;
                    textures = GetNamedTextureHandles env (l_textureDescriptors l);
                    m4 = (if useNewTextureSystem
                          then m3\<lparr>surfaceShader :=
                                    SetNamedTextureHandles textures (surfaceShader m3)\<rparr>
                          else m3);
                    out = (if useNewTextureSystem
                           then GetBufferSpecs (contextCaps env) textures (l_specs p, diagnostics w2)
                           else (l_specs p, diagnostics w2));
                    w3 = w2\<lparr>diagnostics := snd out\<rparr>;
                    m5 = m4\<lparr>surfaceShader :=
                              SetBufferSources (fst out) (l_sources p) (surfaceShader m4)\<rparr>;
                    m6 = (if hasPtex m5 \<noteq> l_hasPtex p
                          then m5\<lparr>hasPtex := l_hasPtex p\<rparr> else m5);
                    l' = (if hasPtex m5 \<noteq> l_hasPtex p
                          then l\<lparr>needsRprimMaterialStateUpdate := True\<rparr> else l);
                    w4 = (if needsRprimMaterialStateUpdate l' \<and> isInitialized m6
                          then w3\<lparr>changeTracker := changeTracker w3
                                    @ [MarkAllRprimsDirty (DirtyMaterialId env)]\<rparr>
                          else w3)
                in (m6\<lparr>isInitialized := True\<rparr>, w4))))"

definition Sync ::
  "environment \<Rightarrow> HdDirtyBits \<Rightarrow> HdStMaterial \<times> world \<Rightarrow> HdDirtyBits \<times> HdStMaterial \<times> world" where
  "Sync env dirtyBits s =
     (case s of (m, w) \<Rightarrow>
       (let bits = dirtyBits
        in if bits AND DirtyResource env = 0 \<and> bits AND DirtyParams env = 0
           then (Clean env, m, w)
           else
             (let useNewTextureSystem = HDST_USE_NEW_TEXTURE_SYSTEM env in
              case Sync_network env useNewTextureSystem m of (l1, m1) \<Rightarrow>
              case Sync_fallback env l1 w of (l2, w2) \<Rightarrow>
              case Sync_shader l2 m1 of (l3, m3) \<Rightarrow>
              case Sync_resources env useNewTextureSystem l3 (m3, Sync_batches l3 m3 w2) of
                (m', w') \<Rightarrow> (Clean env, m', w'))))"

section \<open>The data source of one primvar (dataSourcePrimvars.cpp)\<close>

text \<open>
  The names of \<open>HdPrimvarSchemaTokens\<close> and \<open>HdPrimvarsSchemaTokens\<close> (\<open>primvarSchema.h\<close> and
  \<open>primvarsSchema.h\<close>, not among the sources): each token is the text of its own name.
\<close>

definition primvars :: TfToken where
  "primvars = ''primvars''"

definition primvarValue :: TfToken where
  "primvarValue = ''primvarValue''"

definition indexedPrimvarValue :: TfToken where
  "indexedPrimvarValue = ''indexedPrimvarValue''"

definition indices :: TfToken where
  "indices = ''indices''"

definition interpolation :: TfToken where
  "interpolation = ''interpolation''"

definition role :: TfToken where
  "role = ''role''"

text \<open>
  A data source handle is a pointer that may be null. The data sources met here are the
  one \<open>UsdImagingDataSourceAttributeNew\<close> builds for an attribute, and the token data
  sources kept for the interpolation and the role.
\<close>

datatype HdDataSource = UsdImagingDataSourceAttribute nat | HdTokenDataSource TfToken

type_synonym HdDataSourceBaseHandle = "HdDataSource option"

text \<open>
  A \<open>UsdAttributeQuery\<close> is seen through the answers it gives.
  \<open>UsdImagingDataSourceAttributeNew\<close> is declared in \<open>dataSourceAttribute.h\<close>, which is not
  among the sources: the handle it returns for a query is a parameter, carried by the
  query as \<open>attributeDataSource\<close>.
\<close>

record UsdAttributeQuery =
  query_IsValid :: bool
  query_HasValue :: bool
  query_ValueMightBeTimeVarying :: bool
  attributeDataSource :: HdDataSourceBaseHandle

definition UsdImagingDataSourceAttributeNew :: "UsdAttributeQuery \<Rightarrow> HdDataSourceBaseHandle" where
  "UsdImagingDataSourceAttributeNew usdAttrQuery = attributeDataSource usdAttrQuery"

definition IsIndexed :: "UsdAttributeQuery \<Rightarrow> bool" where
  "IsIndexed indicesQuery = (query_IsValid indicesQuery \<and> query_HasValue indicesQuery)"

record UsdImagingDataSourcePrimvar =
  valueQuery :: UsdAttributeQuery
  indicesQuery :: UsdAttributeQuery
  primvar_interpolation :: HdDataSourceBaseHandle
  primvar_role :: HdDataSourceBaseHandle

text \<open>
  The constructor stores its arguments and flags time-varying locators on the stage
  globals, seen here as the list of flagged (path, locator) pairs.
\<close>

type_synonym HdDataSourceLocator = "TfToken list"

definition UsdImagingDataSourcePrimvar_New ::
  "SdfPath \<Rightarrow> TfToken \<Rightarrow> UsdAttributeQuery \<Rightarrow> UsdAttributeQuery
    \<Rightarrow> HdDataSourceBaseHandle \<Rightarrow> HdDataSourceBaseHandle
    \<Rightarrow> (SdfPath \<times> HdDataSourceLocator) list
    \<Rightarrow> UsdImagingDataSourcePrimvar \<times> (SdfPath \<times> HdDataSourceLocator) list" where
  "UsdImagingDataSourcePrimvar_New sceneIndexPath name valueQ indicesQ interp rl stageGlobals =
     (let this = \<lparr>valueQuery = valueQ, indicesQuery = indicesQ,
                  primvar_interpolation = interp, primvar_role = rl\<rparr>;
          indexed = IsIndexed (indicesQuery this)
      in if indexed then
           (let g1 = (if query_ValueMightBeTimeVarying (valueQuery this)
                      then stageGlobals @ [(sceneIndexPath, [primvars, name, indexedPrimvarValue])]
                      else stageGlobals);
                g2 = (if query_ValueMightBeTimeVarying (indicesQuery this)
                      then g1 @ [(sceneIndexPath, [primvars, name, indices])]
                      else g1)
            in (this, g2))
         else
           (this,
            if query_ValueMightBeTimeVarying (valueQuery this)
            then stageGlobals @ [(sceneIndexPath, [primvars, name, primvarValue])]
            else stageGlobals))"

definition Has :: "UsdImagingDataSourcePrimvar \<Rightarrow> TfToken \<Rightarrow> bool" where
  "Has this name =
     (let indexed = IsIndexed (indicesQuery this)
      in if indexed then
           name = indexedPrimvarValue \<or> name = indices \<or> name = interpolation \<or> name = role
         else
           name = primvarValue \<or> name = interpolation \<or> name = role)"

definition GetNames :: "UsdImagingDataSourcePrimvar \<Rightarrow> TfToken list" where
  "GetNames this =
     (let indexed = IsIndexed (indicesQuery this);
          result = [interpolation, role]
      in if indexed then result @ [indexedPrimvarValue] @ [indices]
         else result @ [primvarValue])"

definition Get :: "UsdImagingDataSourcePrimvar \<Rightarrow> TfToken \<Rightarrow> HdDataSourceBaseHandle" where
  "Get this name =
     (let indexed = IsIndexed (indicesQuery this);
          rest = (if name = interpolation then primvar_interpolation this
                  else if name = role then primvar_role this
                  else None)
      in if indexed then
           (if name = indexedPrimvarValue then UsdImagingDataSourceAttributeNew (valueQuery this)
            else if name = indices then UsdImagingDataSourceAttributeNew (indicesQuery this)
            else rest)
         else
           (if name = primvarValue then UsdImagingDataSourceAttributeNew (valueQuery this)
            else rest))"

section \<open>Example inputs\<close>

definition example_uv_texture :: NamedTextureHandle where
  "example_uv_texture =
     \<lparr>nth_name = ''diffuse'', nth_type = Uv,
      nth_handle = \<lparr>GetTextureObject = Some (HdStUvTextureObject (Some (HgiGLTexture 7))),
                    GetSamplerObject = Some (HdStUvSamplerObject 3)\<rparr>\<rparr>"

definition example_field_texture :: NamedTextureHandle where
  "example_field_texture =
     \<lparr>nth_name = ''density'', nth_type = Field,
      nth_handle = \<lparr>GetTextureObject = Some (HdStFieldTextureObject (Some (HgiGLTexture 8))),
                    GetSamplerObject = Some (HdStFieldSamplerObject 4)\<rparr>\<rparr>"

definition example_ptex_texture :: NamedTextureHandle where
  "example_ptex_texture =
     \<lparr>nth_name = ''color'', nth_type = Ptex,
      nth_handle = \<lparr>GetTextureObject = Some (HdStPtexTextureObject 5 6),
                    GetSamplerObject = Some HdStPtexSamplerObject\<rparr>\<rparr>"

definition example_resourceBinder :: HdSt_ResourceBinder where
  "example_resourceBinder =
     \<lparr>GetBinding = (\<lambda>name. \<lparr>GetTextureUnit = (if name = ''diffuse'' then 2 else 0)\<rparr>)\<rparr>"

definition example_device :: device where
  "example_device = \<lparr>glCalls = [], codingErrors = []\<rparr>"

definition example_samplerParameters :: HdSamplerParameters where
  "example_samplerParameters =
     \<lparr>wrapS = HdWrapRepeat, wrapT = HdWrapRepeat, wrapR = HdWrapMirror,
      minFilter = HdMinFilterLinear, magFilter = HdMagFilterLinear\<rparr>"

definition example_texture_param :: "SdfPath \<Rightarrow> HdTextureType \<Rightarrow> HdSt_MaterialParam" where
  "example_texture_param path type =
     \<lparr>paramType = ParamTypeTexture, param_name = ''diffuseColor'', fallbackValue = VtInt 5,
      connection = path, textureType = type,
      samplerParameters = example_samplerParameters, memoryRequest = 0\<rparr>"

definition example_network :: "string \<Rightarrow> string \<Rightarrow> TfToken \<Rightarrow> HdStMaterialNetwork" where
  "example_network fragmentCode geometryCode tag =
     \<lparr>GetFragmentCode = fragmentCode, GetGeometryCode = geometryCode,
      GetNetworkMetadata = [], GetMaterialTag = tag,
      GetMaterialParams = [example_texture_param ''/Looks/Mat/Tex'' Uv],
      GetTextureDescriptors = []\<rparr>"

definition example_networkMap :: VtValue where
  "example_networkMap =
     VtNetworkMap \<lparr>nm_map = [(''surface'', HdMaterialNetwork [''/Looks/Mat/Shader''])],
                   nm_terminals = [''/Looks/Mat/Shader'']\<rparr>"

text \<open>
  A scene with one material resource, no registered texture and no texture the scene
  delegate can load; the network processor yields the given network.
\<close>

definition example_environment :: "VtValue \<Rightarrow> HdStMaterialNetwork \<Rightarrow> environment" where
  "example_environment vtMat processed =
     \<lparr>GetMaterialResource = (\<lambda>path. vtMat),
      GetTextureResourceID = (\<lambda>path. - 1),
      GetTextureResource = (\<lambda>path. None),
      GetTextureKey = (\<lambda>texID. 0),
      GetHandleKey = (\<lambda>path. 0),
      FindTextureResource = (\<lambda>key. None),
      FindTextureResourceHandle = (\<lambda>key. None),
      AllocateTextureHandle =
        (\<lambda>textureId type sampler memory bindless.
           \<lparr>GetTextureObject = None, GetSamplerObject = None\<rparr>),
      HDST_USE_NEW_TEXTURE_SYSTEM = False,
      contextCaps = \<lparr>bindlessTextureEnabled = False\<rparr>,
      Clean = 0,
      DirtyResource = 4,
      DirtyParams = 8,
      DirtyMaterialId = 16,
      HdStPackageFallbackSurfaceShader = ''fallbackSurface.glslfx'',
      HioGlslfx_new =
        (\<lambda>filePath. \<lparr>GetSurfaceSource = ''fallback surface'', GetMetadata = [],
                      IsValid = True\<rparr>),
      ProcessMaterialNetwork = (\<lambda>path hdNetworkMap processor. processed),
      AddFallbackValueToSpecsAndSources = (\<lambda>param out. out),
      ProcessTextureMaterialParam = (\<lambda>param handle store out. out)\<rparr>"

text \<open>
  A material as its last sync left it (or as constructed, when not initialized): fragment
  source \<open>frag A\<close>, no geometry source, the default material tag, all flags false.
\<close>

definition example_material :: "bool \<Rightarrow> HdStMaterial" where
  "example_material initialized =
     \<lparr>materialId = ''/Looks/Mat'',
      surfaceShader =
        \<lparr>fragmentSource = ''frag A'', geometrySource = [],
         shaderMaterialTag = ''defaultMaterialTag'', enabledPrimvarFiltering = True,
         shaderParams = [], textureDescriptors = [], namedTextureHandles = [],
         bufferSpecs = [], bufferSources = []\<rparr>,
      isInitialized = initialized, hasPtex = False, hasLimitSurfaceEvaluation = False,
      hasDisplacement = False, materialTag = ''defaultMaterialTag'',
      networkProcessor = example_network ''frag A'' [] ''defaultMaterialTag'',
      internalTextureResourceHandles = []\<rparr>"

definition example_world :: world where
  "example_world =
     \<lparr>fallbackGlslfx = None, handleStore = [], changeTracker = [], diagnostics = []\<rparr>"

text \<open>A world in which an earlier sync has already loaded the fallback shader.\<close>

definition example_loaded_world :: world where
  "example_loaded_world =
     \<lparr>fallbackGlslfx =
        Some \<lparr>GetSurfaceSource = ''loaded surface'',
              GetMetadata = [(''limitSurfaceEvaluation'', VtBool True)], IsValid = True\<rparr>,
      handleStore = [], changeTracker = [], diagnostics = []\<rparr>"

definition example_query :: "bool \<Rightarrow> HdDataSourceBaseHandle \<Rightarrow> UsdAttributeQuery" where
  "example_query valid dataSource =
     \<lparr>query_IsValid = valid, query_HasValue = valid, query_ValueMightBeTimeVarying = False,
      attributeDataSource = dataSource\<rparr>"

definition example_primvar ::
  "UsdAttributeQuery \<Rightarrow> UsdAttributeQuery \<Rightarrow> UsdImagingDataSourcePrimvar" where
  "example_primvar valueQ indicesQ =
     \<lparr>valueQuery = valueQ, indicesQuery = indicesQ,
      primvar_interpolation = Some (HdTokenDataSource ''vertex''),
      primvar_role = Some (HdTokenDataSource ''color'')\<rparr>"

section \<open>The texture binder: buffer specs and bindless mode\<close>

lemma GetBufferSpecs_append:
  "GetBufferSpecs caps (xs @ ys) out = GetBufferSpecs caps ys (GetBufferSpecs caps xs out)"
  by (induction xs arbitrary: out) simp_all

text \<open>
  The loop of \<open>GetBufferSpecs\<close> handles one texture after the other
  (\<open>GetBufferSpecs_append\<close>), so what it appends for a texture is what it does on the
  one-texture list, from whatever specs were there before.
\<close>

text \<open>
  Claim C5. For a named texture handle of type Ptex, \<open>GetBufferSpecs\<close> appends exactly two
  entries when bindless textures are enabled, the texture's name and the name followed
  by \<open>_layout\<close>, both of tuple type \<open>(HdTypeUInt32Vec2, 1)\<close>; when bindless is off it
  appends nothing. No diagnostic is posted either way.
\<close>

theorem GetBufferSpecs_Ptex:
  assumes "nth_type t = Ptex"
  shows "GetBufferSpecs caps [t] (acc, diags) =
           (if UsesBindlessTextures caps
            then (acc @ [HdBufferSpec (nth_name t) (HdTupleType HdTypeUInt32Vec2 1),
                         HdBufferSpec (nth_name t @ ''_layout'') (HdTupleType HdTypeUInt32Vec2 1)],
                  diags)
            else (acc, diags))"
  using assms by (simp add: GetBufferSpecs_texture_def bindlessHandleTupleType_def)

theorem GetBufferSpecs_Ptex_witness:
  "GetBufferSpecs \<lparr>bindlessTextureEnabled = True\<rparr> [example_ptex_texture] ([], [])
     = ([HdBufferSpec ''color'' (HdTupleType HdTypeUInt32Vec2 1),
         HdBufferSpec ''color_layout'' (HdTupleType HdTypeUInt32Vec2 1)], [])
   \<and> GetBufferSpecs \<lparr>bindlessTextureEnabled = False\<rparr> [example_ptex_texture] ([], [])
     = ([], [])"
  using GetBufferSpecs_Ptex [of example_ptex_texture "\<lparr>bindlessTextureEnabled = True\<rparr>" "[]" "[]"]
    GetBufferSpecs_Ptex [of example_ptex_texture "\<lparr>bindlessTextureEnabled = False\<rparr>" "[]" "[]"]
  by (simp add: UsesBindlessTextures_def example_ptex_texture_def)



text \<open>
  Without bindless textures, binding one Uv texture activates its unit and binds the
  texture and the sampler; unbinding binds zero in their place.
\<close>

lemma BindResources_bound_example:
  "glCalls (BindResources \<lparr>bindlessTextureEnabled = False\<rparr> example_resourceBinder
              [example_uv_texture] example_device)
     = [glActiveTexture 33986, glBindTexture GL_TEXTURE_2D 7, glBindSampler 2 3]
   \<and> glCalls (UnbindResources \<lparr>bindlessTextureEnabled = False\<rparr> example_resourceBinder
              [example_uv_texture] example_device)
     = [glActiveTexture 33986, glBindTexture GL_TEXTURE_2D 0, glBindSampler 2 0]"
  by (simp add: BindResources_def UnbindResources_def UsesBindlessTextures_def
      Dispatch_BindFunctor_def BindFunctor_Uv_def BindTexture_def gl_def GL_TEXTURE0_def
      example_resourceBinder_def example_uv_texture_def example_device_def)

text \<open>A binding whose texture unit is \<open>-1\<close> reaches the device as unit \<open>4294967295\<close>.\<close>

lemma BindTexture_negative_unit:
  "glCalls (BindTexture GL_TEXTURE_2D (Some (HgiGLTexture 7)) 3 ''diffuse''
              \<lparr>GetBinding = (\<lambda>name. \<lparr>GetTextureUnit = - 1\<rparr>)\<rparr> True example_device)
     = [glActiveTexture 33983, glBindTexture GL_TEXTURE_2D 7, glBindSampler 4294967295 3]"
  by (simp add: BindTexture_def gl_def GL_TEXTURE0_def example_device_def)

text \<open>
  Claim C7. When bindless mode is active, \<open>BindResources\<close> and \<open>UnbindResources\<close> return the
  device as it was, whatever the resource binder and the textures: no call is made on
  it and no diagnostic is posted.
\<close>

theorem BindResources_bindless_noop:
  assumes "UsesBindlessTextures caps"
  shows "BindResources caps resourceBinder textures dev = dev
       \<and> UnbindResources caps resourceBinder textures dev = dev"
  using assms by (simp add: BindResources_def UnbindResources_def)

theorem BindResources_bindless_noop_witness:
  "BindResources \<lparr>bindlessTextureEnabled = True\<rparr> example_resourceBinder
     [example_uv_texture, example_field_texture, example_ptex_texture] example_device
     = example_device
   \<and> UnbindResources \<lparr>bindlessTextureEnabled = True\<rparr> example_resourceBinder
     [example_uv_texture, example_field_texture, example_ptex_texture] example_device
     = example_device"
  using BindResources_bindless_noop [of "\<lparr>bindlessTextureEnabled = True\<rparr>"
      example_resourceBinder
      "[example_uv_texture, example_field_texture, example_ptex_texture]" example_device]
  by (simp add: UsesBindlessTextures_def)

section \<open>Resolving a texture parameter when no resource is found\<close>

text \<open>
  \<open>texResource\<close> is null at line 401 exactly when the connection is empty, or the
  registry gives no resource for the texture id (the id is \<open>-1\<close>, nothing is found, or
  the instance found holds a null pointer) and the scene delegate returns none.
\<close>

lemma LocateTextureResource_None_iff:
  "fst (LocateTextureResource env param w) = None \<longleftrightarrow>
     (IsEmpty (connection param) \<or>
      ((GetTextureResourceID env (connection param) = - 1
        \<or> FindTextureResource env (GetTextureKey env (GetTextureResourceID env (connection param)))
             = None
        \<or> FindTextureResource env (GetTextureKey env (GetTextureResourceID env (connection param)))
             = Some None)
       \<and> GetTextureResource env (connection param) = None))"
  by (auto simp add: LocateTextureResource_def Let_def split: option.splits if_splits)

lemma LocateTextureResource_length:
  "length (handleStore (snd (snd (LocateTextureResource env param w)))) = length (handleStore w)"
  by (simp add: LocateTextureResource_def Let_def SetTextureResource_def TF_WARN_def
      split: option.splits)

lemma LocateTextureResource_None:
  assumes "LocateTextureResource env param w = (None, handle, w1)"
  shows "\<not> (case handle of Some h \<Rightarrow> GetTextureResourceOf w1 h \<noteq> None | None \<Rightarrow> False)"
  using assms
  by (auto simp add: LocateTextureResource_def Let_def GetTextureResourceOf_def
      SetTextureResource_def TF_WARN_def split: option.splits if_splits)

lemma param_sampler_update:
  "connection (param\<lparr>samplerParameters := sp\<rparr>) = connection param"
  "textureType (param\<lparr>samplerParameters := sp\<rparr>) = textureType param"
  "fallbackValue (param\<lparr>samplerParameters := sp\<rparr>) = fallbackValue param"
  by simp_all

lemma LocateTextureResource_ignores_sampler:
  "LocateTextureResource env (param\<lparr>samplerParameters := sp\<rparr>) w
     = LocateTextureResource env param w"
  unfolding LocateTextureResource_def param_sampler_update ..

lemma FallbackTextureResource_ignores_sampler:
  "FallbackTextureResource (param\<lparr>samplerParameters := sp\<rparr>) = FallbackTextureResource param"
  unfolding FallbackTextureResource_def param_sampler_update ..

lemma GetTextureResourceHandle_ignores_sampler:
  "GetTextureResourceHandle env (param\<lparr>samplerParameters := sp\<rparr>) s
     = GetTextureResourceHandle env param s"
  unfolding GetTextureResourceHandle_def LocateTextureResource_ignores_sampler
    FallbackTextureResource_ignores_sampler param_sampler_update ..

lemma GetTextureResourceHandle_fallback:
  assumes "fst (LocateTextureResource env param w) = None"
  shows "GetTextureResourceHandle env param (m, w) =
     (let w1 = snd (snd (LocateTextureResource env param w));
          w2 = (if \<not> IsEmpty (connection param)
                then TF_WARN ''Texture not found. Using fallback texture for''
                       (connection param) w1
                else w1)
      in if textureType param \<noteq> Uv then (None, m, w2)
         else (Some (length (handleStore w)),
               m\<lparr>internalTextureResourceHandles :=
                    internalTextureResourceHandles m @ [length (handleStore w)]\<rparr>,
               w2\<lparr>handleStore := handleStore w2 @ [Some (FallbackTextureResource param)]\<rparr>))"
proof -
  obtain h w1 where loc: "LocateTextureResource env param w = (None, h, w1)"
    using assms by (cases "LocateTextureResource env param w") auto
  have len: "length (handleStore w1) = length (handleStore w)"
    using LocateTextureResource_length [of env param w] loc by simp
  show ?thesis
    using LocateTextureResource_None [OF loc] len
    by (simp add: GetTextureResourceHandle_def loc StoreInternalHandle_def TF_WARN_def Let_def)
qed

text \<open>
  Claim C4. When no usable texture resource is found for a texture parameter
  (\<open>texResource\<close> is null at line 401): for texture type Uv, \<open>_GetTextureResourceHandle\<close>
  returns a handle that did not exist before, wrapping a 1x1 texture built from the
  parameter's fallback value, and appends that handle to the material's internal handle
  list; for every other texture type it returns the null handle.
\<close>

theorem GetTextureResourceHandle_no_resource:
  assumes "fst (LocateTextureResource env param w) = None"
    and "GetTextureResourceHandle env param (m, w) = (handle, m', w')"
  shows "(textureType param = Uv \<longrightarrow>
            handle = Some (length (handleStore w))
          \<and> GetTextureResourceOf w' (length (handleStore w)) =
              Some (HdStSimpleTextureResource
                     (GlfTextureHandle (GlfUVTextureStorage 1 1 (fallbackValue param))) Uv
                     HdWrapClamp HdWrapClamp HdWrapClamp HdMinFilterNearest HdMagFilterNearest 0)
          \<and> length (handleStore w') = length (handleStore w) + 1
          \<and> internalTextureResourceHandles m' =
              internalTextureResourceHandles m @ [length (handleStore w)])
       \<and> (textureType param \<noteq> Uv \<longrightarrow> handle = None)"
proof -
  have len: "length (handleStore (snd (snd (LocateTextureResource env param w))))
      = length (handleStore w)"
    by (rule LocateTextureResource_length)
  show ?thesis
    using assms(2) len unfolding GetTextureResourceHandle_fallback [OF assms(1)]
    by (auto simp add: Let_def TF_WARN_def GetTextureResourceOf_def FallbackTextureResource_def
        nth_append split: if_splits)
qed

theorem GetTextureResourceHandle_no_resource_witness:
  "fst (GetTextureResourceHandle (example_environment VtEmpty (example_network [] [] []))
          (example_texture_param ''/Looks/Mat/Tex'' Uv) (example_material True, example_world))
     = Some 0
   \<and> handleStore (snd (snd (GetTextureResourceHandle
          (example_environment VtEmpty (example_network [] [] []))
          (example_texture_param ''/Looks/Mat/Tex'' Uv) (example_material True, example_world))))
     = [Some (HdStSimpleTextureResource (GlfTextureHandle (GlfUVTextureStorage 1 1 (VtInt 5))) Uv
               HdWrapClamp HdWrapClamp HdWrapClamp HdMinFilterNearest HdMagFilterNearest 0)]
   \<and> internalTextureResourceHandles (fst (snd (GetTextureResourceHandle
          (example_environment VtEmpty (example_network [] [] []))
          (example_texture_param ''/Looks/Mat/Tex'' Uv) (example_material True, example_world))))
     = [0]
   \<and> fst (GetTextureResourceHandle (example_environment VtEmpty (example_network [] [] []))
          (example_texture_param ''/Looks/Mat/Tex'' Ptex) (example_material True, example_world))
     = None"
proof -
  let ?env = "example_environment VtEmpty (example_network [] [] [])"
  let ?uv = "example_texture_param ''/Looks/Mat/Tex'' Uv"
  let ?ptex = "example_texture_param ''/Looks/Mat/Tex'' Ptex"
  let ?s = "(example_material True, example_world)"
  have none: "fst (LocateTextureResource ?env ?uv example_world) = None"
    "fst (LocateTextureResource ?env ?ptex example_world) = None"
    by (simp_all add: LocateTextureResource_def example_environment_def
        example_texture_param_def IsEmpty_def)
  have ty: "textureType ?uv = Uv" "textureType ?ptex \<noteq> Uv"
    by (simp_all add: example_texture_param_def)
  have st: "handleStore (snd (snd (GetTextureResourceHandle ?env ?uv ?s)))
      = [Some (FallbackTextureResource ?uv)]"
    by (simp add: GetTextureResourceHandle_def LocateTextureResource_def
        StoreInternalHandle_def TF_WARN_def IsEmpty_def Let_def
        example_environment_def example_texture_param_def example_world_def)
  from GetTextureResourceHandle_no_resource [OF none(1), of "example_material True"
      "fst (GetTextureResourceHandle ?env ?uv ?s)"
      "fst (snd (GetTextureResourceHandle ?env ?uv ?s))"
      "snd (snd (GetTextureResourceHandle ?env ?uv ?s))"]
    GetTextureResourceHandle_no_resource [OF none(2), of "example_material True"
      "fst (GetTextureResourceHandle ?env ?ptex ?s)"
      "fst (snd (GetTextureResourceHandle ?env ?ptex ?s))"
      "snd (snd (GetTextureResourceHandle ?env ?ptex ?s))"]
  show ?thesis
    using ty st
    by (simp add: example_world_def example_material_def FallbackTextureResource_def
        example_texture_param_def)
qed

text \<open>
  Claim C9. The texture resource made for a parameter that falls back to the 1x1 Uv
  texture has clamp wrap modes on all three axes and nearest min and mag filters,
  whatever sampler parameters \<open>sp\<close> the parameter declares; \<open>_GetTextureResourceHandle\<close>
  does not read them at all.
\<close>

theorem fallback_texture_sampler_state:
  assumes "fst (LocateTextureResource env param w) = None"
    and "textureType param = Uv"
  shows "(\<exists>h r. fst (GetTextureResourceHandle env (param\<lparr>samplerParameters := sp\<rparr>) (m, w))
                  = Some h
              \<and> GetTextureResourceOf
                  (snd (snd (GetTextureResourceHandle env (param\<lparr>samplerParameters := sp\<rparr>)
                               (m, w)))) h = Some r
              \<and> GetWrapS r = Some HdWrapClamp
              \<and> GetWrapT r = Some HdWrapClamp
              \<and> GetWrapR r = Some HdWrapClamp
              \<and> GetMinFilter r = Some HdMinFilterNearest
              \<and> GetMagFilter r = Some HdMagFilterNearest)
       \<and> GetTextureResourceHandle env (param\<lparr>samplerParameters := sp\<rparr>) (m, w)
           = GetTextureResourceHandle env param (m, w)"
proof -
  have len: "length (handleStore (snd (snd (LocateTextureResource env param w))))
      = length (handleStore w)"
    by (rule LocateTextureResource_length)
  show ?thesis
    unfolding GetTextureResourceHandle_ignores_sampler
      GetTextureResourceHandle_fallback [OF assms(1)]
    using assms(2) len
    by (simp add: Let_def TF_WARN_def GetTextureResourceOf_def FallbackTextureResource_def
        nth_append)
qed

theorem fallback_texture_sampler_state_witness:
  "wrapS example_samplerParameters = HdWrapRepeat
   \<and> minFilter example_samplerParameters = HdMinFilterLinear
   \<and> (\<exists>h r. fst (GetTextureResourceHandle (example_environment VtEmpty (example_network [] [] []))
                   ((example_texture_param [] Uv)\<lparr>samplerParameters := example_samplerParameters\<rparr>)
                   (example_material True, example_world)) = Some h
          \<and> GetTextureResourceOf
              (snd (snd (GetTextureResourceHandle
                   (example_environment VtEmpty (example_network [] [] []))
                   ((example_texture_param [] Uv)\<lparr>samplerParameters := example_samplerParameters\<rparr>)
                   (example_material True, example_world)))) h = Some r
          \<and> GetWrapS r = Some HdWrapClamp
          \<and> GetWrapT r = Some HdWrapClamp
          \<and> GetWrapR r = Some HdWrapClamp
          \<and> GetMinFilter r = Some HdMinFilterNearest
          \<and> GetMagFilter r = Some HdMagFilterNearest)"
proof -
  let ?env = "example_environment VtEmpty (example_network [] [] [])"
  have none: "fst (LocateTextureResource ?env (example_texture_param [] Uv) example_world) = None"
    by (simp add: LocateTextureResource_def example_texture_param_def IsEmpty_def)
  have ty: "textureType (example_texture_param [] Uv) = Uv"
    by (simp add: example_texture_param_def)
  have sp: "wrapS example_samplerParameters = HdWrapRepeat"
    "minFilter example_samplerParameters = HdMinFilterLinear"
    by (simp_all add: example_samplerParameters_def)
  note main = conjunct1 [OF fallback_texture_sampler_state [OF none ty,
        of example_samplerParameters "example_material True"]]
  show ?thesis by (intro conjI sp main)
qed

section \<open>\<open>Sync\<close>: what each stage leaves unchanged\<close>

lemma LocateTextureResource_frame:
  "LocateTextureResource env param w = (texResource, handle, w1) \<Longrightarrow>
   changeTracker w1 = changeTracker w \<and> fallbackGlslfx w1 = fallbackGlslfx w"
  by (auto simp add: LocateTextureResource_def Let_def SetTextureResource_def TF_WARN_def
      split: option.splits if_splits)

lemma StoreInternalHandle_frame:
  "StoreInternalHandle texResource handle (m, w) = (handle', m', w') \<Longrightarrow>
   m' = m\<lparr>internalTextureResourceHandles := internalTextureResourceHandles m'\<rparr>
   \<and> changeTracker w' = changeTracker w \<and> fallbackGlslfx w' = fallbackGlslfx w"
  by (auto simp add: StoreInternalHandle_def Let_def split: option.splits)

lemma GetTextureResourceHandle_frame:
  assumes "GetTextureResourceHandle env param (m, w) = (handle, m', w')"
  shows "m' = m\<lparr>internalTextureResourceHandles := internalTextureResourceHandles m'\<rparr>
       \<and> changeTracker w' = changeTracker w \<and> fallbackGlslfx w' = fallbackGlslfx w"
proof -
  obtain texResource h w1 where loc: "LocateTextureResource env param w = (texResource, h, w1)"
    by (cases "LocateTextureResource env param w") auto
  note fr = LocateTextureResource_frame [OF loc]
  show ?thesis
    using assms loc fr
    by (auto simp add: GetTextureResourceHandle_def TF_WARN_def Let_def
        split: if_splits option.splits dest!: StoreInternalHandle_frame)
qed

lemma Sync_param_frame:
  assumes "Sync_param env u param (p, m, w) = (p', m', w')"
  shows "m' = m\<lparr>internalTextureResourceHandles := internalTextureResourceHandles m'\<rparr>
       \<and> changeTracker w' = changeTracker w \<and> fallbackGlslfx w' = fallbackGlslfx w"
  using assms
  by (auto simp add: Sync_param_def Let_def split: if_splits prod.splits
      dest!: GetTextureResourceHandle_frame)

lemma Sync_params_frame:
  "Sync_params env u params (p, m, w) = (p', m', w') \<Longrightarrow>
   m' = m\<lparr>internalTextureResourceHandles := internalTextureResourceHandles m'\<rparr>
   \<and> changeTracker w' = changeTracker w \<and> fallbackGlslfx w' = fallbackGlslfx w"
proof (induction params arbitrary: p m w)
  case Nil
  then show ?case by simp
next
  case (Cons param params)
  obtain p1 m1 w1 where step: "Sync_param env u param (p, m, w) = (p1, m1, w1)"
    by (cases "Sync_param env u param (p, m, w)") auto
  from Cons.prems step have rest: "Sync_params env u params (p1, m1, w1) = (p', m', w')"
    by simp
  from Sync_param_frame [OF step] Cons.IH [OF rest]
  show ?case
    by (metis (no_types, lifting) HdStMaterial.update_convs(9) HdStMaterial.surjective)
qed


lemma cond_update_hasDisplacement:
  "(if hasDisplacement m \<noteq> v then m\<lparr>hasDisplacement := v\<rparr> else m) = m\<lparr>hasDisplacement := v\<rparr>"
  by simp

lemma cond_update_hasLimitSurfaceEvaluation:
  "(if hasLimitSurfaceEvaluation m \<noteq> v then m\<lparr>hasLimitSurfaceEvaluation := v\<rparr> else m)
     = m\<lparr>hasLimitSurfaceEvaluation := v\<rparr>"
  by simp

lemma cond_update_hasPtex:
  "(if hasPtex m \<noteq> v then m\<lparr>hasPtex := v\<rparr> else m) = m\<lparr>hasPtex := v\<rparr>"
  by simp

lemma cond_update_needs:
  "(if c then l\<lparr>needsRprimMaterialStateUpdate := True\<rparr> else l)
     = l\<lparr>needsRprimMaterialStateUpdate := needsRprimMaterialStateUpdate l \<or> c\<rparr>"
  by simp

lemma Sync_shader_eq:
  "Sync_shader l m =
     (l\<lparr>needsRprimMaterialStateUpdate :=
          needsRprimMaterialStateUpdate l
          \<or> hasDisplacement m \<noteq> (l_geometrySource l \<noteq> [])
          \<or> hasLimitSurfaceEvaluation m \<noteq> GetHasLimitSurfaceEvaluation (l_materialMetadata l)
          \<or> materialTag m \<noteq> l_materialTag l\<rparr>,
      m\<lparr>surfaceShader :=
           (surfaceShader m)
             \<lparr>fragmentSource := l_fragmentSource l,
              geometrySource := l_geometrySource l,
              shaderMaterialTag :=
                (if materialTag m \<noteq> l_materialTag l then l_materialTag l
                 else shaderMaterialTag (surfaceShader m)),
              enabledPrimvarFiltering := True\<rparr>,
         hasDisplacement := (l_geometrySource l \<noteq> []),
         hasLimitSurfaceEvaluation := GetHasLimitSurfaceEvaluation (l_materialMetadata l),
         materialTag := l_materialTag l\<rparr>)"
  unfolding Sync_shader_def Let_def cond_update_hasDisplacement
    cond_update_hasLimitSurfaceEvaluation cond_update_needs
    SetFragmentSource_def SetGeometrySource_def SetMaterialTag_def
    SetEnabledPrimvarFiltering_def
  by (cases "materialTag m = l_materialTag l") (simp_all add: disj_assoc)

lemma Sync_batches_after_shader:
  "Sync_batches (fst (Sync_shader l m)) (snd (Sync_shader l m)) w = w"
  by (simp add: Sync_shader_eq Sync_batches_def Let_def GetSource_def
      fragmentShader_def geometryShader_def)


lemma Sync_resources_eq:
  assumes "Sync_params env u (l_params l)
             (\<lparr>l_specs = [], l_sources = [], l_textureResourceDescriptors = [],
               l_hasPtex = False\<rparr>,
              m\<lparr>surfaceShader := SetParams (l_params l) (surfaceShader m),
                internalTextureResourceHandles := []\<rparr>, w) = (p, m2, w2)"
  shows "Sync_resources env u l (m, w) =
     (m2\<lparr>surfaceShader :=
           SetBufferSources
             (fst (if u then GetBufferSpecs (contextCaps env)
                               (GetNamedTextureHandles env (l_textureDescriptors l))
                               (l_specs p, diagnostics w2)
                   else (l_specs p, diagnostics w2)))
             (l_sources p)
             (if u then SetNamedTextureHandles
                          (GetNamedTextureHandles env (l_textureDescriptors l))
                          (SetTextureDescriptors (l_textureResourceDescriptors p)
                             (surfaceShader m2))
              else SetTextureDescriptors (l_textureResourceDescriptors p) (surfaceShader m2)),
         hasPtex := l_hasPtex p,
         isInitialized := True\<rparr>,
      w2\<lparr>diagnostics :=
           snd (if u then GetBufferSpecs (contextCaps env)
                            (GetNamedTextureHandles env (l_textureDescriptors l))
                            (l_specs p, diagnostics w2)
                else (l_specs p, diagnostics w2)),
         changeTracker := changeTracker w2 @
           (if (needsRprimMaterialStateUpdate l \<or> hasPtex m2 \<noteq> l_hasPtex p)
               \<and> isInitialized m2
            then [MarkAllRprimsDirty (DirtyMaterialId env)] else [])\<rparr>)"
  unfolding Sync_resources_def Let_def
  by (simp add: assms)

lemma Sync_resources_result:
  assumes "Sync_resources env u l (m, w) = (m', w')"
  shows "fragmentSource (surfaceShader m') = fragmentSource (surfaceShader m)"
    and "geometrySource (surfaceShader m') = geometrySource (surfaceShader m)"
    and "materialTag m' = materialTag m"
    and "hasDisplacement m' = hasDisplacement m"
    and "hasLimitSurfaceEvaluation m' = hasLimitSurfaceEvaluation m"
    and "isInitialized m'"
    and "fallbackGlslfx w' = fallbackGlslfx w"
    and "changeTracker w' = changeTracker w @
           (if (needsRprimMaterialStateUpdate l \<or> hasPtex m' \<noteq> hasPtex m) \<and> isInitialized m
            then [MarkAllRprimsDirty (DirtyMaterialId env)] else [])"
proof -
  let ?m1 = "m\<lparr>surfaceShader := SetParams (l_params l) (surfaceShader m),
                internalTextureResourceHandles := []\<rparr>"
  let ?p0 = "\<lparr>l_specs = [], l_sources = [], l_textureResourceDescriptors = [],
              l_hasPtex = False\<rparr>"
  obtain p m2 w2 where loop: "Sync_params env u (l_params l) (?p0, ?m1, w) = (p, m2, w2)"
    by (cases "Sync_params env u (l_params l) (?p0, ?m1, w)") auto
  from Sync_params_frame [OF loop]
  have m2: "m2 = ?m1\<lparr>internalTextureResourceHandles := internalTextureResourceHandles m2\<rparr>"
    and ct: "changeTracker w2 = changeTracker w" and fb: "fallbackGlslfx w2 = fallbackGlslfx w"
    by auto
  have f2: "surfaceShader m2 = SetParams (l_params l) (surfaceShader m)"
    "materialTag m2 = materialTag m" "hasDisplacement m2 = hasDisplacement m"
    "hasLimitSurfaceEvaluation m2 = hasLimitSurfaceEvaluation m" "hasPtex m2 = hasPtex m"
    "isInitialized m2 = isInitialized m"
    by (subst m2, simp)+
  note eq = assms [unfolded Sync_resources_eq [OF loop], simplified prod.inject]
  have m': "m' = m2\<lparr>surfaceShader := surfaceShader m', hasPtex := l_hasPtex p,
                     isInitialized := True\<rparr>"
    using eq by (metis (no_types, lifting) HdStMaterial.select_convs(2)
        HdStMaterial.surjective HdStMaterial.update_convs(2,3,4))
  show "materialTag m' = materialTag m" by (subst m') (simp add: f2)
  show "hasDisplacement m' = hasDisplacement m" by (subst m') (simp add: f2)
  show "hasLimitSurfaceEvaluation m' = hasLimitSurfaceEvaluation m" by (subst m') (simp add: f2)
  show "isInitialized m'" by (subst m') simp
  have hp: "hasPtex m' = l_hasPtex p" by (subst m') simp
  have sh: "surfaceShader m' =
           SetBufferSources
             (fst (if u then GetBufferSpecs (contextCaps env)
                               (GetNamedTextureHandles env (l_textureDescriptors l))
                               (l_specs p, diagnostics w2)
                   else (l_specs p, diagnostics w2)))
             (l_sources p)
             (if u then SetNamedTextureHandles
                          (GetNamedTextureHandles env (l_textureDescriptors l))
                          (SetTextureDescriptors (l_textureResourceDescriptors p)
                             (surfaceShader m2))
              else SetTextureDescriptors (l_textureResourceDescriptors p) (surfaceShader m2))"
    using eq by auto
  show "fragmentSource (surfaceShader m') = fragmentSource (surfaceShader m)"
    by (simp add: sh f2 SetBufferSources_def SetNamedTextureHandles_def
        SetTextureDescriptors_def SetParams_def)
  show "geometrySource (surfaceShader m') = geometrySource (surfaceShader m)"
    by (simp add: sh f2 SetBufferSources_def SetNamedTextureHandles_def
        SetTextureDescriptors_def SetParams_def)
  have w': "fallbackGlslfx w' = fallbackGlslfx w2"
    "changeTracker w' = changeTracker w2 @
           (if (needsRprimMaterialStateUpdate l \<or> hasPtex m2 \<noteq> l_hasPtex p)
               \<and> isInitialized m2
            then [MarkAllRprimsDirty (DirtyMaterialId env)] else [])"
    using eq by auto
  show "fallbackGlslfx w' = fallbackGlslfx w" by (simp add: w' fb)
  show "changeTracker w' = changeTracker w @
           (if (needsRprimMaterialStateUpdate l \<or> hasPtex m' \<noteq> hasPtex m) \<and> isInitialized m
            then [MarkAllRprimsDirty (DirtyMaterialId env)] else [])"
    using w'(2) by (auto simp add: ct f2 hp)
qed


lemma Sync_network_frame:
  assumes "Sync_network env u m = (l, m1)"
  shows "\<not> needsRprimMaterialStateUpdate l"
    and "m1 = m\<lparr>networkProcessor := networkProcessor m1\<rparr>"
  using assms
  by (auto simp add: Sync_network_def Let_def split: VtValue.splits if_splits)

lemma InitFallbackShader_result:
  assumes "InitFallbackShader env w = (glslfx, w1)"
  shows "fallbackGlslfx w1 = Some glslfx" and "changeTracker w1 = changeTracker w"
  using assms
  by (auto simp add: InitFallbackShader_def Let_def split: option.splits if_splits)

lemma Sync_fallback_frame:
  assumes "Sync_fallback env l w = (l', w1)"
  shows "needsRprimMaterialStateUpdate l' = needsRprimMaterialStateUpdate l"
    and "l_materialTag l' = l_materialTag l"
    and "changeTracker w1 = changeTracker w"
  using assms
  by (auto simp add: Sync_fallback_def split: if_splits prod.splits
      dest: InitFallbackShader_result(2))

text \<open>
  The object \<open>_fallbackGlslfx\<close> points to after \<open>_InitFallbackShader\<close>: the one loaded
  before, or else the one now loaded from the fallback surface shader file.
\<close>

lemma InitFallbackShader_object:
  "fst (InitFallbackShader env w) =
     (case fallbackGlslfx w of
        Some loaded \<Rightarrow> loaded
      | None \<Rightarrow> HioGlslfx_new env (HdStPackageFallbackSurfaceShader env))"
  by (simp add: InitFallbackShader_def Let_def split: option.splits)

lemma Sync_fallback_taken:
  assumes "Sync_fallback env l w = (l', w1)"
    and "l_fragmentSource l = []" and "l_geometrySource l = []"
  shows "l_geometrySource l' = []"
    and "fallbackGlslfx w1 = Some (fst (InitFallbackShader env w))"
    and "l_fragmentSource l' = GetSurfaceSource (fst (InitFallbackShader env w))"
    and "l_materialMetadata l' = GetMetadata (fst (InitFallbackShader env w))"
  using assms
  by (auto simp add: Sync_fallback_def split: prod.splits dest: InitFallbackShader_result(1))

lemma Sync_dirty_eq:
  assumes "\<not> (dirtyBits AND DirtyResource env = 0 \<and> dirtyBits AND DirtyParams env = 0)"
    and "Sync_network env (HDST_USE_NEW_TEXTURE_SYSTEM env) m = (l1, m1)"
    and "Sync_fallback env l1 w = (l2, w2)"
    and "Sync_shader l2 m1 = (l3, m3)"
  shows "Sync env dirtyBits (m, w) =
           (case Sync_resources env (HDST_USE_NEW_TEXTURE_SYSTEM env) l3 (m3, w2) of
              (m', w') \<Rightarrow> (Clean env, m', w'))"
proof -
  have bat: "Sync_batches l3 m3 w2 = w2"
    using Sync_batches_after_shader [of l2 m1 w2] assms(4) by simp
  show ?thesis
    unfolding Sync_def Let_def by (simp add: if_not_P [OF assms(1)] assms(2-4) bat)
qed

lemma Sync_changeTracker:
  assumes "Sync env dirtyBits (m, w) = (bits', m', w')"
  shows "changeTracker w' = changeTracker w @
           (if \<not> (dirtyBits AND DirtyResource env = 0 \<and> dirtyBits AND DirtyParams env = 0)
               \<and> isInitialized m
               \<and> (hasDisplacement m' \<noteq> hasDisplacement m
                  \<or> hasLimitSurfaceEvaluation m' \<noteq> hasLimitSurfaceEvaluation m
                  \<or> materialTag m' \<noteq> materialTag m
                  \<or> hasPtex m' \<noteq> hasPtex m)
            then [MarkAllRprimsDirty (DirtyMaterialId env)] else [])"
proof (cases "dirtyBits AND DirtyResource env = 0 \<and> dirtyBits AND DirtyParams env = 0")
  case True
  with assms show ?thesis by (simp add: Sync_def)
next
  case False
  obtain l1 m1 where net: "Sync_network env (HDST_USE_NEW_TEXTURE_SYSTEM env) m = (l1, m1)"
    by (cases "Sync_network env (HDST_USE_NEW_TEXTURE_SYSTEM env) m") auto
  obtain l2 w2 where fb: "Sync_fallback env l1 w = (l2, w2)"
    by (cases "Sync_fallback env l1 w") auto
  obtain l3 m3 where sh: "Sync_shader l2 m1 = (l3, m3)"
    by (cases "Sync_shader l2 m1") auto
  from assms have res:
    "Sync_resources env (HDST_USE_NEW_TEXTURE_SYSTEM env) l3 (m3, w2) = (m', w')"
    unfolding Sync_dirty_eq [OF False net fb sh] by (simp split: prod.splits)
  note n = Sync_network_frame [OF net]
  note f = Sync_fallback_frame [OF fb]
  note r = Sync_resources_result [OF res]
  have m1: "hasDisplacement m1 = hasDisplacement m"
    "hasLimitSurfaceEvaluation m1 = hasLimitSurfaceEvaluation m"
    "materialTag m1 = materialTag m" "hasPtex m1 = hasPtex m"
    "isInitialized m1 = isInitialized m"
    by (subst n(2), simp)+
  from sh have l3: "needsRprimMaterialStateUpdate l3 =
      (hasDisplacement m \<noteq> (l_geometrySource l2 \<noteq> [])
       \<or> hasLimitSurfaceEvaluation m \<noteq> GetHasLimitSurfaceEvaluation (l_materialMetadata l2)
       \<or> materialTag m \<noteq> l_materialTag l2)"
    and m3: "hasDisplacement m3 = (l_geometrySource l2 \<noteq> [])"
      "hasLimitSurfaceEvaluation m3 = GetHasLimitSurfaceEvaluation (l_materialMetadata l2)"
      "materialTag m3 = l_materialTag l2" "hasPtex m3 = hasPtex m"
      "isInitialized m3 = isInitialized m"
    using n(1) f(1) m1 by (auto simp add: Sync_shader_eq)
  show ?thesis
    using False r(8) by (auto simp add: r(3,4,5) l3 m3 f(3))
qed



text \<open>
  A missing or structurally empty network leaves both sources of the locals empty.
\<close>

lemma Sync_network_missing:
  assumes "\<forall>nm. GetMaterialResource env (materialId m) = VtNetworkMap nm
             \<longrightarrow> nm_terminals nm = [] \<or> nm_map nm = []"
  shows "l_fragmentSource (fst (Sync_network env u m)) = []
       \<and> l_geometrySource (fst (Sync_network env u m)) = []"
  using assms by (auto simp add: Sync_network_def Let_def split: VtValue.splits)

lemmas Sync_unfold =
  Sync_def Sync_network_def Sync_fallback_def InitFallbackShader_def Sync_shader_eq
  Sync_batches_def Sync_resources_def Sync_param_def GetTextureResourceHandle_def
  LocateTextureResource_def StoreInternalHandle_def FallbackTextureResource_def
  TF_WARN_def IsEmpty_def IsFallback_def IsPrimvarRedirect_def IsTexture_def
  IsSupportedByNewTextureSystem_def GetHasLimitSurfaceEvaluation_def
  TfMapLookupByValue_def SetParams_def SetTextureDescriptors_def SetBufferSources_def
  GetSource_def fragmentShader_def geometryShader_def Let_def

lemmas example_unfold =
  example_environment_def example_material_def example_world_def example_network_def
  example_networkMap_def example_texture_param_def example_samplerParameters_def

section \<open>\<open>Sync\<close>: the fast path, the fallback shader and the invalidations\<close>

text \<open>
  Claim C3. When the incoming dirty mask has neither the \<open>DirtyResource\<close> bit nor the
  \<open>DirtyParams\<close> bit, \<open>Sync\<close> returns with the mask set to \<open>Clean\<close>; the material, its
  shader and everything else are as before, and the change tracker has received no
  call.
\<close>

theorem Sync_clean_mask_noop:
  assumes "dirtyBits AND DirtyResource env = 0"
    and "dirtyBits AND DirtyParams env = 0"
  shows "Sync env dirtyBits (m, w) = (Clean env, m, w)"
  using assms by (simp add: Sync_def)

theorem Sync_clean_mask_noop_witness:
  "(3 :: HdDirtyBits) AND 4 = 0 \<and> (3 :: HdDirtyBits) AND 8 = 0
   \<and> Sync (example_environment example_networkMap
             (example_network ''frag B'' ''displace'' ''translucent'')) 3
        (example_material True, example_world)
     = (0, example_material True, example_world)"
proof -
  let ?env = "example_environment example_networkMap
             (example_network ''frag B'' ''displace'' ''translucent'')"
  have b: "(3 :: HdDirtyBits) AND 4 = 0" "(3 :: HdDirtyBits) AND 8 = 0"
    by simp_all
  have e: "DirtyResource ?env = 4" "DirtyParams ?env = 8" "Clean ?env = 0"
    by (simp_all add: example_environment_def)
  from Sync_clean_mask_noop [of 3 ?env "example_material True" example_world]
  show ?thesis using b e by simp
qed

text \<open>
  Claim C8. In a \<open>Sync\<close> that gets past the fast path and whose network processing
  leaves the fragment and the geometry source both empty, the fallback shader path is
  taken. The static \<open>_fallbackGlslfx\<close> then holds the fallback shader: the one it held
  before, or, when it was null, the one loaded from \<open>HdStPackageFallbackSurfaceShader()\<close>.
  The fragment source stored on the surface shader is that shader's surface source, the
  limit-surface flag is read from that shader's metadata, the geometry source stored
  is the empty string, and the displacement flag is false afterwards.
\<close>

theorem Sync_empty_network_uses_fallback:
  assumes "\<not> (dirtyBits AND DirtyResource env = 0 \<and> dirtyBits AND DirtyParams env = 0)"
    and "l_fragmentSource (fst (Sync_network env (HDST_USE_NEW_TEXTURE_SYSTEM env) m)) = []"
    and "l_geometrySource (fst (Sync_network env (HDST_USE_NEW_TEXTURE_SYSTEM env) m)) = []"
    and "Sync env dirtyBits (m, w) = (bits', m', w')"
  shows "(let glslfx = (case fallbackGlslfx w of
                          Some loaded \<Rightarrow> loaded
                        | None \<Rightarrow> HioGlslfx_new env (HdStPackageFallbackSurfaceShader env))
          in fallbackGlslfx w' = Some glslfx
           \<and> fragmentSource (surfaceShader m') = GetSurfaceSource glslfx
           \<and> hasLimitSurfaceEvaluation m' = GetHasLimitSurfaceEvaluation (GetMetadata glslfx)
           \<and> geometrySource (surfaceShader m') = []
           \<and> \<not> hasDisplacement m')"
proof -
  obtain l1 m1 where net: "Sync_network env (HDST_USE_NEW_TEXTURE_SYSTEM env) m = (l1, m1)"
    by (cases "Sync_network env (HDST_USE_NEW_TEXTURE_SYSTEM env) m") auto
  obtain l2 w2 where fb: "Sync_fallback env l1 w = (l2, w2)"
    by (cases "Sync_fallback env l1 w") auto
  obtain l3 m3 where sh: "Sync_shader l2 m1 = (l3, m3)"
    by (cases "Sync_shader l2 m1") auto
  from assms(4) have res:
    "Sync_resources env (HDST_USE_NEW_TEXTURE_SYSTEM env) l3 (m3, w2) = (m', w')"
    unfolding Sync_dirty_eq [OF assms(1) net fb sh] by (simp split: prod.splits)
  from assms(2,3) net have empty: "l_fragmentSource l1 = []" "l_geometrySource l1 = []"
    by simp_all
  note t = Sync_fallback_taken [OF fb empty, unfolded InitFallbackShader_object]
  note r = Sync_resources_result [OF res]
  from sh have m3: "geometrySource (surfaceShader m3) = l_geometrySource l2"
    "fragmentSource (surfaceShader m3) = l_fragmentSource l2"
    "hasDisplacement m3 = (l_geometrySource l2 \<noteq> [])"
    "hasLimitSurfaceEvaluation m3 = GetHasLimitSurfaceEvaluation (l_materialMetadata l2)"
    by (auto simp add: Sync_shader_eq)
  show ?thesis
    unfolding Let_def by (simp add: r(1,2,4,5,7) m3 t)
qed

theorem Sync_empty_network_uses_fallback_witness:
  "fallbackGlslfx (snd (snd
      (Sync (example_environment VtEmpty (example_network ''frag B'' ''displace'' []))
         8 (example_material False, example_world))))
     = Some \<lparr>GetSurfaceSource = ''fallback surface'', GetMetadata = [], IsValid = True\<rparr>
   \<and> fragmentSource (surfaceShader (fst (snd
      (Sync (example_environment VtEmpty (example_network ''frag B'' ''displace'' []))
         8 (example_material False, example_world))))) = ''fallback surface''
   \<and> \<not> hasLimitSurfaceEvaluation (fst (snd
      (Sync (example_environment VtEmpty (example_network ''frag B'' ''displace'' []))
         8 (example_material False, example_world))))
   \<and> geometrySource (surfaceShader (fst (snd
      (Sync (example_environment VtEmpty (example_network ''frag B'' ''displace'' []))
         8 (example_material False, example_world))))) = []
   \<and> \<not> hasDisplacement (fst (snd
      (Sync (example_environment VtEmpty (example_network ''frag B'' ''displace'' []))
         8 (example_material False, example_world))))
   \<and> fallbackGlslfx (snd (snd
      (Sync (example_environment VtEmpty (example_network ''frag B'' ''displace'' []))
         8 (example_material False, example_loaded_world))))
     = fallbackGlslfx example_loaded_world
   \<and> fragmentSource (surfaceShader (fst (snd
      (Sync (example_environment VtEmpty (example_network ''frag B'' ''displace'' []))
         8 (example_material False, example_loaded_world))))) = ''loaded surface''
   \<and> hasLimitSurfaceEvaluation (fst (snd
      (Sync (example_environment VtEmpty (example_network ''frag B'' ''displace'' []))
         8 (example_material False, example_loaded_world))))"
proof -
  let ?env = "example_environment VtEmpty (example_network ''frag B'' ''displace'' [])"
  let ?s = "(example_material False, example_world)"
  let ?t = "(example_material False, example_loaded_world)"
  have dirty: "\<not> ((8 :: HdDirtyBits) AND DirtyResource ?env = 0
                 \<and> (8 :: HdDirtyBits) AND DirtyParams ?env = 0)"
    by (simp add: example_environment_def)
  have missing: "\<forall>nm. GetMaterialResource ?env (materialId (example_material False))
                        = VtNetworkMap nm \<longrightarrow> nm_terminals nm = [] \<or> nm_map nm = []"
    by (simp add: example_environment_def)
  note empty = Sync_network_missing [OF missing, of "HDST_USE_NEW_TEXTURE_SYSTEM ?env"]
  have new: "HioGlslfx_new ?env (HdStPackageFallbackSurfaceShader ?env)
      = \<lparr>GetSurfaceSource = ''fallback surface'', GetMetadata = [], IsValid = True\<rparr>"
    by (simp add: example_environment_def)
  have lse: "\<not> GetHasLimitSurfaceEvaluation []"
    "GetHasLimitSurfaceEvaluation [(''limitSurfaceEvaluation'', VtBool True)]"
    by (simp_all add: GetHasLimitSurfaceEvaluation_def TfMapLookupByValue_def)
  have unloaded: "fallbackGlslfx example_world = None"
    by (simp add: example_world_def)
  have loaded: "fallbackGlslfx example_loaded_world =
      Some \<lparr>GetSurfaceSource = ''loaded surface'',
            GetMetadata = [(''limitSurfaceEvaluation'', VtBool True)], IsValid = True\<rparr>"
    by (simp add: example_loaded_world_def)
  note first = Sync_empty_network_uses_fallback [OF dirty conjunct1 [OF empty]
      conjunct2 [OF empty], of example_world "fst (Sync ?env 8 ?s)"
      "fst (snd (Sync ?env 8 ?s))" "snd (snd (Sync ?env 8 ?s))"]
  note later = Sync_empty_network_uses_fallback [OF dirty conjunct1 [OF empty]
      conjunct2 [OF empty], of example_loaded_world "fst (Sync ?env 8 ?t)"
      "fst (snd (Sync ?env 8 ?t))" "snd (snd (Sync ?env 8 ?t))"]
  from first have a: "fallbackGlslfx (snd (snd (Sync ?env 8 ?s)))
        = Some \<lparr>GetSurfaceSource = ''fallback surface'', GetMetadata = [], IsValid = True\<rparr>"
    "fragmentSource (surfaceShader (fst (snd (Sync ?env 8 ?s)))) = ''fallback surface''"
    "\<not> hasLimitSurfaceEvaluation (fst (snd (Sync ?env 8 ?s)))"
    "geometrySource (surfaceShader (fst (snd (Sync ?env 8 ?s)))) = []"
    "\<not> hasDisplacement (fst (snd (Sync ?env 8 ?s)))"
    by (simp_all add: Let_def unloaded new lse)
  from later have b: "fallbackGlslfx (snd (snd (Sync ?env 8 ?t)))
        = fallbackGlslfx example_loaded_world"
    "fragmentSource (surfaceShader (fst (snd (Sync ?env 8 ?t)))) = ''loaded surface''"
    "hasLimitSurfaceEvaluation (fst (snd (Sync ?env 8 ?t)))"
    by (simp_all add: Let_def loaded lse)
  show ?thesis by (intro conjI a b)
qed

text \<open>
  \<open>_isInitialized\<close> tells the first sync from the later ones: it is false on a material as
  constructed, a \<open>Sync\<close> that returns on the fast path leaves it as it is, and every other
  \<open>Sync\<close> sets it.
\<close>

lemma HdStMaterial_new_not_initialized:
  "\<not> isInitialized (HdStMaterial_new path newSurfaceShader newNetworkProcessor)"
  by (simp add: HdStMaterial_new_def)

lemma Sync_sets_isInitialized:
  assumes "\<not> (dirtyBits AND DirtyResource env = 0 \<and> dirtyBits AND DirtyParams env = 0)"
    and "Sync env dirtyBits (m, w) = (bits', m', w')"
  shows "isInitialized m' \<and> bits' = Clean env"
proof -
  obtain l1 m1 where net: "Sync_network env (HDST_USE_NEW_TEXTURE_SYSTEM env) m = (l1, m1)"
    by (cases "Sync_network env (HDST_USE_NEW_TEXTURE_SYSTEM env) m") auto
  obtain l2 w2 where fb: "Sync_fallback env l1 w = (l2, w2)"
    by (cases "Sync_fallback env l1 w") auto
  obtain l3 m3 where sh: "Sync_shader l2 m1 = (l3, m3)"
    by (cases "Sync_shader l2 m1") auto
  from assms(2) have res:
    "Sync_resources env (HDST_USE_NEW_TEXTURE_SYSTEM env) l3 (m3, w2) = (m', w')"
    and bits: "bits' = Clean env"
    unfolding Sync_dirty_eq [OF assms(1) net fb sh] by (simp_all split: prod.splits)
  from Sync_resources_result(6) [OF res] bits show ?thesis by simp
qed

text \<open>
  Claim C2. If \<open>Sync\<close> changes any of the flags has-displacement,
  has-limit-surface-evaluation or has-ptex of a material that has been synced before
  (\<open>_isInitialized\<close>), it calls \<open>MarkAllRprimsDirty(DirtyMaterialId)\<close> exactly once; on a
  material that has not been synced before it makes no \<open>MarkAllRprimsDirty\<close> call at all.
\<close>

theorem Sync_flag_change_marks_rprims_dirty:
  assumes "Sync env dirtyBits (m, w) = (bits', m', w')"
  shows "(isInitialized m
          \<and> (hasDisplacement m' \<noteq> hasDisplacement m
             \<or> hasLimitSurfaceEvaluation m' \<noteq> hasLimitSurfaceEvaluation m
             \<or> hasPtex m' \<noteq> hasPtex m)
          \<longrightarrow> count_list (changeTracker w') (MarkAllRprimsDirty (DirtyMaterialId env))
              = count_list (changeTracker w) (MarkAllRprimsDirty (DirtyMaterialId env)) + 1)
       \<and> (\<not> isInitialized m
          \<longrightarrow> (\<forall>b. count_list (changeTracker w') (MarkAllRprimsDirty b)
                  = count_list (changeTracker w) (MarkAllRprimsDirty b)))"
proof (cases "dirtyBits AND DirtyResource env = 0 \<and> dirtyBits AND DirtyParams env = 0")
  case True
  with assms have "m' = m" "w' = w" by (simp_all add: Sync_def)
  then show ?thesis by simp
next
  case False
  show ?thesis
    unfolding Sync_changeTracker [OF assms] using False by auto
qed

theorem Sync_flag_change_marks_rprims_dirty_witness:
  "isInitialized (example_material True)
   \<and> hasDisplacement (fst (snd (Sync (example_environment example_networkMap
         (example_network ''frag A'' ''displace'' ''defaultMaterialTag'')) 8
         (example_material True, example_world))))
   \<and> \<not> hasDisplacement (example_material True)
   \<and> count_list (changeTracker (snd (snd (Sync (example_environment example_networkMap
         (example_network ''frag A'' ''displace'' ''defaultMaterialTag'')) 8
         (example_material True, example_world))))) (MarkAllRprimsDirty 16) = 1
   \<and> count_list (changeTracker (snd (snd (Sync (example_environment example_networkMap
         (example_network ''frag A'' ''displace'' ''defaultMaterialTag'')) 8
         (example_material False, example_world))))) (MarkAllRprimsDirty 16) = 0"
proof -
  let ?env = "example_environment example_networkMap
         (example_network ''frag A'' ''displace'' ''defaultMaterialTag'')"
  have d: "DirtyMaterialId ?env = 16" by (simp add: example_environment_def)
  have e1: "hasDisplacement (fst (snd (Sync ?env 8 (example_material True, example_world))))"
    by (simp add: Sync_unfold example_unfold)
  have i: "isInitialized (example_material True)" "\<not> isInitialized (example_material False)"
    "\<not> hasDisplacement (example_material True)" "changeTracker example_world = []"
    by (simp_all add: example_unfold)
  from Sync_flag_change_marks_rprims_dirty [of ?env 8 "example_material True" example_world
      "fst (Sync ?env 8 (example_material True, example_world))"
      "fst (snd (Sync ?env 8 (example_material True, example_world)))"
      "snd (snd (Sync ?env 8 (example_material True, example_world)))"]
    Sync_flag_change_marks_rprims_dirty [of ?env 8 "example_material False" example_world
      "fst (Sync ?env 8 (example_material False, example_world))"
      "fst (snd (Sync ?env 8 (example_material False, example_world)))"
      "snd (snd (Sync ?env 8 (example_material False, example_world)))"]
  show ?thesis using e1 i d by simp
qed


text \<open>
  \<open>Sync\<close> never calls \<open>MarkBatchesDirty\<close>. By line 232 the member \<open>_materialTag\<close> has been
  given the new tag (line 215), and by line 236 the surface shader has been given the new
  sources (lines 196 and 197): each of the three comparisons of lines 232 to 242 compares
  a value with itself.
\<close>

lemma Sync_never_marks_batches_dirty:
  assumes "Sync env dirtyBits (m, w) = (bits', m', w')"
  shows "count_list (changeTracker w') MarkBatchesDirty
           = count_list (changeTracker w) MarkBatchesDirty"
  unfolding Sync_changeTracker [OF assms] by simp

text \<open>
  Claim C1 (the code departs from it). Two syncs of a material that has been synced
  before, with fragment source \<open>frag A\<close>, no geometry source and the default material tag:
  in the first the network yields the same sources and the tag \<open>translucent\<close>, in the
  second the same tag and the fragment source \<open>frag B\<close>. Each stores what changed, and
  neither calls \<open>MarkBatchesDirty\<close>.
\<close>

theorem Sync_changed_tag_or_source_marks_no_batches_dirty:
  "isInitialized (example_material True)
   \<and> materialTag (example_material True) = ''defaultMaterialTag''
   \<and> materialTag (fst (snd (Sync (example_environment example_networkMap
         (example_network ''frag A'' [] ''translucent'')) 8
         (example_material True, example_world)))) = ''translucent''
   \<and> MarkBatchesDirty \<notin> set (changeTracker (snd (snd (Sync (example_environment
         example_networkMap (example_network ''frag A'' [] ''translucent'')) 8
         (example_material True, example_world)))))
   \<and> fragmentSource (surfaceShader (example_material True)) = ''frag A''
   \<and> fragmentSource (surfaceShader (fst (snd (Sync (example_environment example_networkMap
         (example_network ''frag B'' [] ''defaultMaterialTag'')) 8
         (example_material True, example_world))))) = ''frag B''
   \<and> materialTag (fst (snd (Sync (example_environment example_networkMap
         (example_network ''frag B'' [] ''defaultMaterialTag'')) 8
         (example_material True, example_world)))) = ''defaultMaterialTag''
   \<and> MarkBatchesDirty \<notin> set (changeTracker (snd (snd (Sync (example_environment
         example_networkMap (example_network ''frag B'' [] ''defaultMaterialTag'')) 8
         (example_material True, example_world)))))"
proof -
  let ?envT = "example_environment example_networkMap
                 (example_network ''frag A'' [] ''translucent'')"
  let ?envB = "example_environment example_networkMap
                 (example_network ''frag B'' [] ''defaultMaterialTag'')"
  let ?s = "(example_material True, example_world)"
  have m: "isInitialized (example_material True)"
    "materialTag (example_material True) = ''defaultMaterialTag''"
    "fragmentSource (surfaceShader (example_material True)) = ''frag A''"
    by (simp_all add: example_material_def)
  have t: "materialTag (fst (snd (Sync ?envT 8 ?s))) = ''translucent''"
    by (simp add: Sync_unfold example_unfold)
  have b: "fragmentSource (surfaceShader (fst (snd (Sync ?envB 8 ?s)))) = ''frag B''"
    "materialTag (fst (snd (Sync ?envB 8 ?s))) = ''defaultMaterialTag''"
    by (simp_all add: Sync_unfold example_unfold)
  have w: "changeTracker example_world = []"
    by (simp add: example_world_def)
  have n: "MarkBatchesDirty \<notin> set (changeTracker (snd (snd (Sync env 8 ?s))))" for env
    using Sync_never_marks_batches_dirty [of env 8 "example_material True" example_world
        "fst (Sync env 8 ?s)" "fst (snd (Sync env 8 ?s))" "snd (snd (Sync env 8 ?s))"]
    by (simp add: w count_list_0_iff)
  show ?thesis by (intro conjI m t b n)
qed

section \<open>The data source of one primvar: \<open>Has\<close>, \<open>GetNames\<close> and \<open>Get\<close>\<close>

lemma token_simps:
  "primvarValue \<noteq> interpolation" "primvarValue \<noteq> role"
  "indexedPrimvarValue \<noteq> interpolation" "indexedPrimvarValue \<noteq> role"
  "indices \<noteq> interpolation" "indices \<noteq> role" "indexedPrimvarValue \<noteq> indices"
  "interpolation \<noteq> role" "indices \<noteq> primvarValue" "indexedPrimvarValue \<noteq> primvarValue"
  by (simp_all add: primvarValue_def indexedPrimvarValue_def indices_def interpolation_def
      role_def)

lemma Has_GetNames: "Has this name = (name \<in> set (GetNames this))"
  by (auto simp add: Has_def GetNames_def Let_def)

lemma set_GetNames:
  "set (GetNames this) =
     (if IsIndexed (indicesQuery this)
      then {indexedPrimvarValue, indices, interpolation, role}
      else {primvarValue, interpolation, role})"
  by (auto simp add: GetNames_def Let_def)

text \<open>
  Claim C10, as stated, fails: with non-null interpolation and role handles, a primvar
  whose value query gets no data source from \<open>UsdImagingDataSourceAttributeNew\<close> has the
  name \<open>primvarValue\<close> (\<open>Has\<close>, \<open>GetNames\<close>) and \<open>Get\<close> returns null for it.
\<close>

theorem Get_null_for_listed_name:
  "primvar_interpolation (example_primvar (example_query True None) (example_query False None))
     \<noteq> None
   \<and> primvar_role (example_primvar (example_query True None) (example_query False None))
     \<noteq> None
   \<and> Has (example_primvar (example_query True None) (example_query False None)) primvarValue
   \<and> primvarValue
       \<in> set (GetNames (example_primvar (example_query True None) (example_query False None)))
   \<and> Get (example_primvar (example_query True None) (example_query False None)) primvarValue
     = None"
  by (simp add: example_primvar_def example_query_def Has_def GetNames_def Get_def
      IsIndexed_def UsdImagingDataSourceAttributeNew_def Let_def)

text \<open>
  Claim C10, amended. When the interpolation and role handles are non-null and
  \<open>UsdImagingDataSourceAttributeNew\<close> returns a non-null data source for the value query
  and, for an indexed primvar, for the indices query, the three accessors agree:
  \<open>Get\<close> returns a non-null handle exactly for the names \<open>Has\<close> accepts, these are
  exactly the names \<open>GetNames\<close> lists, and they are \<open>indexedPrimvarValue\<close>, \<open>indices\<close>,
  \<open>interpolation\<close> and \<open>role\<close> when the indices query is valid and has a value, and
  \<open>primvarValue\<close>, \<open>interpolation\<close> and \<open>role\<close> otherwise.
\<close>

theorem primvar_accessors_agree:
  assumes "primvar_interpolation this \<noteq> None"
    and "primvar_role this \<noteq> None"
    and "UsdImagingDataSourceAttributeNew (valueQuery this) \<noteq> None"
    and "IsIndexed (indicesQuery this)
           \<longrightarrow> UsdImagingDataSourceAttributeNew (indicesQuery this) \<noteq> None"
  shows "(Get this name \<noteq> None) = Has this name
       \<and> Has this name = (name \<in> set (GetNames this))
       \<and> set (GetNames this) =
           (if IsIndexed (indicesQuery this)
            then {indexedPrimvarValue, indices, interpolation, role}
            else {primvarValue, interpolation, role})"
proof (intro conjI)
  show "(Get this name \<noteq> None) = Has this name"
    using assms by (auto simp add: Get_def Has_def Let_def)
  show "Has this name = (name \<in> set (GetNames this))"
    by (rule Has_GetNames)
  show "set (GetNames this) =
           (if IsIndexed (indicesQuery this)
            then {indexedPrimvarValue, indices, interpolation, role}
            else {primvarValue, interpolation, role})"
    by (rule set_GetNames)
qed

theorem primvar_accessors_agree_witness:
  "(Get (example_primvar (example_query True (Some (UsdImagingDataSourceAttribute 1)))
                         (example_query True (Some (UsdImagingDataSourceAttribute 2))))
        indices \<noteq> None)
   \<and> Has (example_primvar (example_query True (Some (UsdImagingDataSourceAttribute 1)))
                          (example_query True (Some (UsdImagingDataSourceAttribute 2))))
        indices
   \<and> set (GetNames (example_primvar (example_query True (Some (UsdImagingDataSourceAttribute 1)))
                          (example_query True (Some (UsdImagingDataSourceAttribute 2)))))
     = {indexedPrimvarValue, indices, interpolation, role}
   \<and> Get (example_primvar (example_query True (Some (UsdImagingDataSourceAttribute 1)))
                          (example_query False None))
        indices = None
   \<and> \<not> Has (example_primvar (example_query True (Some (UsdImagingDataSourceAttribute 1)))
                            (example_query False None))
        indices
   \<and> set (GetNames (example_primvar (example_query True (Some (UsdImagingDataSourceAttribute 1)))
                          (example_query False None)))
     = {primvarValue, interpolation, role}"
proof -
  let ?v = "example_query True (Some (UsdImagingDataSourceAttribute 1))"
  let ?i = "example_query True (Some (UsdImagingDataSourceAttribute 2))"
  let ?n = "example_query False None"
  have h: "primvar_interpolation (example_primvar ?v q) \<noteq> None"
    "primvar_role (example_primvar ?v q) \<noteq> None"
    "UsdImagingDataSourceAttributeNew (valueQuery (example_primvar ?v q)) \<noteq> None" for q
    by (simp_all add: example_primvar_def example_query_def UsdImagingDataSourceAttributeNew_def)
  have i: "IsIndexed (indicesQuery (example_primvar ?v ?i))"
    "UsdImagingDataSourceAttributeNew (indicesQuery (example_primvar ?v ?i)) \<noteq> None"
    "\<not> IsIndexed (indicesQuery (example_primvar ?v ?n))"
    by (simp_all add: example_primvar_def example_query_def IsIndexed_def
        UsdImagingDataSourceAttributeNew_def)
  have hi: "Has (example_primvar ?v ?i) indices" "\<not> Has (example_primvar ?v ?n) indices"
    using i(1,3) token_simps by (simp_all add: Has_def)
  have p: "IsIndexed (indicesQuery (example_primvar ?v ?i))
             \<longrightarrow> UsdImagingDataSourceAttributeNew (indicesQuery (example_primvar ?v ?i)) \<noteq> None"
    "IsIndexed (indicesQuery (example_primvar ?v ?n))
             \<longrightarrow> UsdImagingDataSourceAttributeNew (indicesQuery (example_primvar ?v ?n)) \<noteq> None"
    using i by simp_all
  note indexed = primvar_accessors_agree [OF h p(1), of indices]
  note plain = primvar_accessors_agree [OF h p(2), of indices]
  have g1: "Get (example_primvar ?v ?i) indices \<noteq> None"
    using indexed hi(1) by blast
  have s1: "set (GetNames (example_primvar ?v ?i))
              = {indexedPrimvarValue, indices, interpolation, role}"
    using conjunct2 [OF conjunct2 [OF indexed]] unfolding if_P [OF i(1)] .
  have g2: "Get (example_primvar ?v ?n) indices = None"
    using plain hi(2) by blast
  have s2: "set (GetNames (example_primvar ?v ?n)) = {primvarValue, interpolation, role}"
    using conjunct2 [OF conjunct2 [OF plain]] unfolding if_not_P [OF i(3)] .
  show ?thesis by (intro conjI g1 hi s1 g2 s2)
qed

end
